theory Spec2Isabelle
  imports Complex_Main
begin

section \<open>Go values and library primitives used by the service\<close>

text \<open>
  A Go \<open>error\<close> is modelled by the text its \<open>Error()\<close> method returns; \<open>fmt.Errorf("p: %w", err)\<close>
  is the prefix followed by that text. A function returning \<open>(T, error)\<close> returns \<open>error + T\<close>
  (\<open>Inl\<close> the error); a function returning only \<open>error\<close> returns \<open>error option\<close> (\<open>None\<close> is nil).
\<close>

type_synonym error = string

text \<open>
  A function of the service either returns or panics. A panic inside an HTTP handler unwinds
  the handler: nothing after the panicking statement runs.
\<close>

datatype 'a outcome = Returned 'a | Panicked string

text \<open>
  \<open>encoding/json\<close> decodes into \<open>interface{}\<close> values: nil, bool, float64, string,
  \<open>[]interface{}\<close> and \<open>map[string]interface{}\<close>. A float64 is modelled by the rational it
  denotes. An object keeps its members in document order; a Go map holds the last value of a
  repeated key.
\<close>

datatype json =
    JNull
  | JBool bool
  | JNum rat
  | JStr string
  | JArr "json list"
  | JObj "(string \<times> json) list"

text \<open>A \<open>map[string]interface{}\<close>; \<open>None\<close> is the nil map.\<close>

type_synonym jmap = "(string \<times> json) list option"

text \<open>\<open>m[k]\<close>: nil for a missing key, and for every key of a nil map.\<close>

definition index :: "jmap \<Rightarrow> string \<Rightarrow> json" where
  "index m k =
     (case m of
        None \<Rightarrow> JNull
      | Some kvs \<Rightarrow> (case map_of (rev kvs) k of None \<Rightarrow> JNull | Some v \<Rightarrow> v))"

text \<open>The comma-ok type assertions \<open>v, ok := x.(T)\<close>: the zero value of \<open>T\<close> when \<open>ok\<close> is false.\<close>

definition as_string :: "json \<Rightarrow> string" where
  "as_string j = (case j of JStr s \<Rightarrow> s | _ \<Rightarrow> [])"

definition is_string :: "json \<Rightarrow> bool" where
  "is_string j = (case j of JStr s \<Rightarrow> True | _ \<Rightarrow> False)"

definition as_bool :: "json \<Rightarrow> bool" where
  "as_bool j = (case j of JBool b \<Rightarrow> b | _ \<Rightarrow> False)"

definition as_float64 :: "json \<Rightarrow> rat" where
  "as_float64 j = (case j of JNum q \<Rightarrow> q | _ \<Rightarrow> 0)"

definition as_map :: "json \<Rightarrow> jmap" where
  "as_map j = (case j of JObj kvs \<Rightarrow> Some kvs | _ \<Rightarrow> None)"

definition is_map :: "json \<Rightarrow> bool" where
  "is_map j = (case j of JObj kvs \<Rightarrow> True | _ \<Rightarrow> False)"

text \<open>The single-value assertion \<open>x.(float64)\<close> panics when \<open>x\<close> does not hold a float64.\<close>

definition must_float64 :: "json \<Rightarrow> rat outcome" where
  "must_float64 j =
     (case j of
        JNum q \<Rightarrow> Returned q
      | _ \<Rightarrow> Panicked ''interface conversion: interface {} is not float64'')"

text \<open>
  The conversion \<open>int(f)\<close> of a float64 discards the fraction (truncation towards zero). Values
  outside the range of \<open>int\<close> are implementation-dependent in Go and are not modelled.
\<close>

definition go_int :: "rat \<Rightarrow> int" where
  "go_int q = (if 0 \<le> q then \<lfloor>q\<rfloor> else \<lceil>q\<rceil>)"

text \<open>The verb \<open>%d\<close> of \<open>fmt\<close>: decimal digits, with a minus sign for a negative number.\<close>

definition digit :: "nat \<Rightarrow> char" where
  "digit n = ''0123456789'' ! n"

function itoa_nat :: "nat \<Rightarrow> string" where
  "itoa_nat n = (if n < 10 then [digit n] else itoa_nat (n div 10) @ [digit (n mod 10)])"
  by pat_completeness auto
termination
  by (relation "measure id") auto

declare itoa_nat.simps [simp del]

definition itoa :: "int \<Rightarrow> string" where
  "itoa i = (if i < 0 then CHR ''-'' # itoa_nat (nat (- i)) else itoa_nat (nat i))"

text \<open>The verb \<open>%t\<close>.\<close>

definition fmt_bool :: "bool \<Rightarrow> string" where
  "fmt_bool b = (if b then ''true'' else ''false'')"

fun strings_Join :: "string list \<Rightarrow> string \<Rightarrow> string" where
  "strings_Join [] sep = []"
| "strings_Join [x] sep = x"
| "strings_Join (x # y # ys) sep = x @ sep @ strings_Join (y # ys) sep"

definition strings_Repeat :: "string \<Rightarrow> nat \<Rightarrow> string" where
  "strings_Repeat s n = concat (replicate n s)"

definition strings_TrimPrefix :: "string \<Rightarrow> string \<Rightarrow> string" where
  "strings_TrimPrefix s p = (if take (length p) s = p then drop (length p) s else s)"

definition nl :: string where
  "nl = [CHR 0x0A]"

definition dquote :: string where
  "dquote = [CHR 0x22]"

text \<open>The UTF-8 bytes of the bullet (U+2022) and of the arrow (U+2192) in the issue description.\<close>

definition bullet :: string where
  "bullet = [CHR 0xE2, CHR 0x80, CHR 0xA2]"

definition rarrow :: string where
  "rarrow = [CHR 0xE2, CHR 0x86, CHR 0x92]"


section \<open>Data of the hosting platform and of the issue tracker\<close>

text \<open>
  The go-github structs, by the values their nil-safe getters return (\<open>GetFilename\<close>,
  \<open>GetAdditions\<close>, ...); \<open>Patch\<close> is read as a pointer, so it stays optional.
\<close>

record commit_file =
  cf_filename :: string
  cf_additions :: int
  cf_deletions :: int
  cf_status :: string
  cf_patch :: "string option"

record repository_commit =
  rc_files :: "commit_file list"
  rc_stats_additions :: int
  rc_stats_deletions :: int

record pull_request =
  pr_title :: string
  pr_number :: int
  pr_user_login :: string
  pr_state :: string
  pr_head_ref :: string
  pr_base_ref :: string

record pull_request_review =
  review_id :: int

record hook =
  hook_name :: string
  hook_url :: string
  hook_content_type :: string
  hook_insecure_ssl :: string
  hook_events :: "string list"
  hook_active :: bool

text \<open>\<open>PRDetails\<close>, \<open>RepoCreationInfo\<close> and \<open>CommitInfo\<close> of package github.\<close>

record PRDetails =
  PullRequest :: pull_request
  Files :: "commit_file list"
  Reviews :: "pull_request_review list"

record RepoCreationInfo =
  rci_RepoName :: string
  rci_CreatedBy :: string
  rci_CreatedAt :: string
  rci_Description :: string
  rci_Language :: string
  rci_Private :: bool
  rci_DefaultBranch :: string
  rci_CloneURL :: string
  rci_GitURL :: string
  rci_SSHURL :: string

record CommitInfo =
  ci_SHA :: string
  ci_Message :: string
  ci_Author :: string
  ci_AuthorEmail :: string
  ci_Date :: string
  ci_FilesChanged :: int
  ci_Additions :: int
  ci_Deletions :: int
  ci_Repository :: string
  ci_Branch :: string
  ci_DiffContent :: string

text \<open>\<open>PRIssueInfo\<close> of package jira, and the parts of the go-jira structs the code touches.\<close>

record PRIssueInfo =
  PRNumber :: int
  PRTitle :: string
  RepoName :: string
  Author :: string
  SourceBranch :: string
  TargetBranch :: string
  FilesChanged :: "string list"
  PRLink :: string
  Action :: string

record issue_fields =
  if_project_key :: string
  if_type_name :: string
  if_summary :: string
  if_description :: string
  if_labels :: "string list"

record issue =
  issue_key :: string

record transition =
  transition_id :: string
  transition_to_name :: string


section \<open>The outside world: logging sink, upstream APIs, clock\<close>

text \<open>
  Everything the service does to the outside is one event of a trace, in the order it happens:
  a line written by the logger, or one request to the hosting platform or to the tracker.
\<close>

datatype event =
    LogInfo string
  | LogError string
  | GhPullRequestsGet string string int
  | GhPullRequestsListFiles string string int
  | GhPullRequestsListReviews string string int
  | GhRepositoriesGetCommit string string string
  | GhRepositoriesCreateHook string string hook
  | JiraIssueCreate issue_fields
  | JiraIssueSearch string nat
  | JiraIssueGetTransitions string
  | JiraIssueDoTransition string string

type_synonym trace = "event list"

text \<open>
  The upstream services answer each request as a function of everything that happened before it
  (the trace so far) and of the request. The record also holds the library functions that are
  taken as given: the JSON parser, \<open>strings.ToUpper\<close>, the verb \<open>%.0f\<close> and the clock.
\<close>

record env =
  gh_PullRequests_Get :: "trace \<Rightarrow> string \<Rightarrow> string \<Rightarrow> int \<Rightarrow> error + pull_request"
  gh_PullRequests_ListFiles :: "trace \<Rightarrow> string \<Rightarrow> string \<Rightarrow> int \<Rightarrow> error + commit_file list"
  gh_PullRequests_ListReviews ::
    "trace \<Rightarrow> string \<Rightarrow> string \<Rightarrow> int \<Rightarrow> error + pull_request_review list"
  gh_Repositories_GetCommit :: "trace \<Rightarrow> string \<Rightarrow> string \<Rightarrow> string \<Rightarrow> error + repository_commit"
  gh_Repositories_CreateHook :: "trace \<Rightarrow> string \<Rightarrow> string \<Rightarrow> hook \<Rightarrow> error option"
  jira_Issue_Create :: "trace \<Rightarrow> issue_fields \<Rightarrow> error + issue"
  jira_Issue_Search :: "trace \<Rightarrow> string \<Rightarrow> nat \<Rightarrow> error + issue list"
  jira_Issue_GetTransitions :: "trace \<Rightarrow> string \<Rightarrow> error + transition list"
  jira_Issue_DoTransition :: "trace \<Rightarrow> string \<Rightarrow> string \<Rightarrow> error option"
  json_parse :: "string \<Rightarrow> error + json"
  strings_ToUpper :: "string \<Rightarrow> string"
  fmt_f0 :: "rat \<Rightarrow> string"
  time_Now_Format :: "trace \<Rightarrow> string \<Rightarrow> string"

text \<open>Observations on a trace.\<close>

fun is_tracker_call :: "event \<Rightarrow> bool" where
  "is_tracker_call (JiraIssueCreate f) = True"
| "is_tracker_call (JiraIssueSearch q n) = True"
| "is_tracker_call (JiraIssueGetTransitions k) = True"
| "is_tracker_call (JiraIssueDoTransition k i) = True"
| "is_tracker_call e = False"

fun is_platform_call :: "event \<Rightarrow> bool" where
  "is_platform_call (GhPullRequestsGet org r n) = True"
| "is_platform_call (GhPullRequestsListFiles org r n) = True"
| "is_platform_call (GhPullRequestsListReviews org r n) = True"
| "is_platform_call (GhRepositoriesGetCommit org r s) = True"
| "is_platform_call (GhRepositoriesCreateHook org r h) = True"
| "is_platform_call e = False"

fun is_create_call :: "event \<Rightarrow> bool" where
  "is_create_call (JiraIssueCreate f) = True"
| "is_create_call e = False"

fun is_error_log :: "event \<Rightarrow> bool" where
  "is_error_log (LogError m) = True"
| "is_error_log e = False"

definition tracker_calls :: "trace \<Rightarrow> trace" where
  "tracker_calls t = filter is_tracker_call t"

definition platform_calls :: "trace \<Rightarrow> trace" where
  "platform_calls t = filter is_platform_call t"

definition error_logs :: "trace \<Rightarrow> trace" where
  "error_logs t = filter is_error_log t"


section \<open>Package jira: the tracker client\<close>

definition Issue_Create :: "env \<Rightarrow> issue_fields \<Rightarrow> trace \<Rightarrow> (error + issue) \<times> trace" where
  "Issue_Create e issueData t = (jira_Issue_Create e t issueData, t @ [JiraIssueCreate issueData])"

definition Issue_Search :: "env \<Rightarrow> string \<Rightarrow> nat \<Rightarrow> trace \<Rightarrow> (error + issue list) \<times> trace" where
  "Issue_Search e jql maxResults t =
     (jira_Issue_Search e t jql maxResults, t @ [JiraIssueSearch jql maxResults])"

definition Issue_GetTransitions :: "env \<Rightarrow> string \<Rightarrow> trace \<Rightarrow> (error + transition list) \<times> trace" where
  "Issue_GetTransitions e issueKey t =
     (jira_Issue_GetTransitions e t issueKey, t @ [JiraIssueGetTransitions issueKey])"

definition Issue_DoTransition :: "env \<Rightarrow> string \<Rightarrow> string \<Rightarrow> trace \<Rightarrow> error option \<times> trace" where
  "Issue_DoTransition e issueKey transitionID t =
     (jira_Issue_DoTransition e t issueKey transitionID,
      t @ [JiraIssueDoTransition issueKey transitionID])"

text \<open>The loop of \<open>moveToStatus\<close> over the fetched transitions, and the error after it.\<close>

fun moveToStatus_loop ::
  "env \<Rightarrow> string \<Rightarrow> string \<Rightarrow> transition list \<Rightarrow> trace \<Rightarrow> error option \<times> trace" where
  "moveToStatus_loop e issueKey targetStatus [] t =
     (Some (''no transition found to status: '' @ targetStatus), t)"
| "moveToStatus_loop e issueKey targetStatus (tr # trs) t =
     (if transition_to_name tr = targetStatus
      then Issue_DoTransition e issueKey (transition_id tr) t
      else moveToStatus_loop e issueKey targetStatus trs t)"

definition moveToStatus :: "env \<Rightarrow> string \<Rightarrow> string \<Rightarrow> trace \<Rightarrow> error option \<times> trace" where
  "moveToStatus e issueKey targetStatus t =
     (case Issue_GetTransitions e issueKey t of
        (Inl err, t1) \<Rightarrow> (Some err, t1)
      | (Inr transitions, t1) \<Rightarrow> moveToStatus_loop e issueKey targetStatus transitions t1)"

definition pr_label :: "int \<Rightarrow> string" where
  "pr_label n = ''pr-'' @ itoa n"

definition issue_description :: "PRIssueInfo \<Rightarrow> string \<Rightarrow> string" where
  "issue_description prInfo now =
     nl @ ''*GitHub PR Details:*'' @ nl @
     bullet @ '' Repository: '' @ RepoName prInfo @ nl @
     bullet @ '' PR Number: #'' @ itoa (PRNumber prInfo) @ ''  '' @ nl @
     bullet @ '' Author: '' @ Author prInfo @ nl @
     bullet @ '' Source Branch: '' @ SourceBranch prInfo @ '' '' @ rarrow @
       '' Target Branch: '' @ TargetBranch prInfo @ nl @
     bullet @ '' PR Link: [View on GitHub|'' @ PRLink prInfo @ '']'' @ nl @
     nl @
     ''*Files Changed:*'' @ nl @
     strings_Join (FilesChanged prInfo) (nl @ bullet @ '' '') @ nl @
     nl @
     ''_Created: '' @ now @ ''_'' @ nl"

definition issue_data :: "PRIssueInfo \<Rightarrow> string \<Rightarrow> issue_fields" where
  "issue_data prInfo now =
     \<lparr> if_project_key = ''REP'',
       if_type_name = ''Task'',
       if_summary = ''PR #'' @ itoa (PRNumber prInfo) @ '': '' @ PRTitle prInfo,
       if_description = issue_description prInfo now,
       if_labels = [''github-pr'', pr_label (PRNumber prInfo)] \<rparr>"

definition CreatePRIssue :: "env \<Rightarrow> PRIssueInfo \<Rightarrow> trace \<Rightarrow> (error + issue) \<times> trace" where
  "CreatePRIssue e prInfo t =
     (let projectKey = ''REP'';
          issueData = issue_data prInfo (time_Now_Format e t ''2006-01-02 15:04:05'')
      in case Issue_Create e issueData t of
           (Inl err, t1) \<Rightarrow>
             (Inl (''failed to create issue in project '' @ projectKey @ '': '' @ err), t1)
         | (Inr issue, t1) \<Rightarrow>
             (case moveToStatus e (issue_key issue) ''Open_PR'' t1 of
                (ignored, t2) \<Rightarrow> (Inr issue, t2)))"

definition pr_jql :: "int \<Rightarrow> string" where
  "pr_jql prNumber =
     ''project = '' @ dquote @ ''REP'' @ dquote @ '' AND labels = '' @ dquote @
       pr_label prNumber @ dquote"

definition FindPRIssue :: "env \<Rightarrow> string \<Rightarrow> int \<Rightarrow> trace \<Rightarrow> (error + issue) \<times> trace" where
  "FindPRIssue e repoName prNumber t =
     (case Issue_Search e (pr_jql prNumber) 1 t of
        (Inl err, t1) \<Rightarrow> (Inl err, t1)
      | (Inr issues, t1) \<Rightarrow>
          (case issues of
             [] \<Rightarrow> (Inl ''PR issue not found'', t1)
           | i # rest \<Rightarrow> (Inr i, t1)))"

definition MovePRToMerged :: "env \<Rightarrow> string \<Rightarrow> int \<Rightarrow> trace \<Rightarrow> error option \<times> trace" where
  "MovePRToMerged e repoName prNumber t =
     (case FindPRIssue e repoName prNumber t of
        (Inl err, t1) \<Rightarrow> (Some err, t1)
      | (Inr i, t1) \<Rightarrow> moveToStatus e (issue_key i) ''Merged_PR'' t1)"


section \<open>Package github: the enrichment client\<close>

definition Repositories_GetCommit ::
  "env \<Rightarrow> string \<Rightarrow> string \<Rightarrow> string \<Rightarrow> trace \<Rightarrow> (error + repository_commit) \<times> trace" where
  "Repositories_GetCommit e org repoName sha t =
     (gh_Repositories_GetCommit e t org repoName sha,
      t @ [GhRepositoriesGetCommit org repoName sha])"

definition Repositories_CreateHook ::
  "env \<Rightarrow> string \<Rightarrow> string \<Rightarrow> hook \<Rightarrow> trace \<Rightarrow> error option \<times> trace" where
  "Repositories_CreateHook e org repoName hk t =
     (gh_Repositories_CreateHook e t org repoName hk,
      t @ [GhRepositoriesCreateHook org repoName hk])"

definition PullRequests_Get ::
  "env \<Rightarrow> string \<Rightarrow> string \<Rightarrow> int \<Rightarrow> trace \<Rightarrow> (error + pull_request) \<times> trace" where
  "PullRequests_Get e org repoName prNumber t =
     (gh_PullRequests_Get e t org repoName prNumber,
      t @ [GhPullRequestsGet org repoName prNumber])"

definition PullRequests_ListFiles ::
  "env \<Rightarrow> string \<Rightarrow> string \<Rightarrow> int \<Rightarrow> trace \<Rightarrow> (error + commit_file list) \<times> trace" where
  "PullRequests_ListFiles e org repoName prNumber t =
     (gh_PullRequests_ListFiles e t org repoName prNumber,
      t @ [GhPullRequestsListFiles org repoName prNumber])"

definition PullRequests_ListReviews ::
  "env \<Rightarrow> string \<Rightarrow> string \<Rightarrow> int \<Rightarrow> trace \<Rightarrow> (error + pull_request_review list) \<times> trace" where
  "PullRequests_ListReviews e org repoName prNumber t =
     (gh_PullRequests_ListReviews e t org repoName prNumber,
      t @ [GhPullRequestsListReviews org repoName prNumber])"

definition CreateRepoWebhook ::
  "env \<Rightarrow> string \<Rightarrow> string \<Rightarrow> string \<Rightarrow> trace \<Rightarrow> error option \<times> trace" where
  "CreateRepoWebhook e org repoName webhookURL t =
     (let hk = \<lparr> hook_name = ''web'',
                  hook_url = webhookURL,
                  hook_content_type = ''json'',
                  hook_insecure_ssl = ''0'',
                  hook_events = [''push'', ''pull_request'', ''issues'', ''repository'',
                                 ''release'', ''commit_comment''],
                  hook_active = True \<rparr>
      in case Repositories_CreateHook e org repoName hk t of
           (Some err, t1) \<Rightarrow>
             (Some (''failed to create webhook for repo '' @ repoName @ '': '' @ err), t1)
         | (None, t1) \<Rightarrow> (None, t1))"

definition GetCommitDetails ::
  "env \<Rightarrow> string \<Rightarrow> string \<Rightarrow> string \<Rightarrow> trace \<Rightarrow> (error + repository_commit) \<times> trace" where
  "GetCommitDetails e org repoName commitSHA t =
     (case Repositories_GetCommit e org repoName commitSHA t of
        (Inl err, t1) \<Rightarrow> (Inl (''failed to get commit details: '' @ err), t1)
      | (Inr commit, t1) \<Rightarrow> (Inr commit, t1))"

text \<open>The loop of \<open>GetFileDiff\<close> over the changed files; \<open>i\<close> is the index of the first one.\<close>

fun diff_files :: "nat \<Rightarrow> commit_file list \<Rightarrow> string" where
  "diff_files i [] = []"
| "diff_files i (file # files) =
     ''FILE '' @ itoa (int i + 1) @ '': '' @ cf_filename file @ nl @
     ''Status: '' @ cf_status file @ nl @
     ''Changes: +'' @ itoa (cf_additions file) @ ''/-'' @ itoa (cf_deletions file) @
       '' lines'' @ nl @
     (case cf_patch file of
        None \<Rightarrow> []
      | Some patch \<Rightarrow> ''DIFF:'' @ nl @ patch @ nl) @
     strings_Repeat ''-'' 60 @ nl @
     diff_files (i + 1) files"

text \<open>
  \<open>commitSHA[:8]\<close> is evaluated after the commit was fetched; slicing a string shorter than
  eight bytes panics.
\<close>

definition GetFileDiff ::
  "env \<Rightarrow> string \<Rightarrow> string \<Rightarrow> string \<Rightarrow> trace \<Rightarrow> (error + string) outcome \<times> trace" where
  "GetFileDiff e org repoName commitSHA t =
     (case Repositories_GetCommit e org repoName commitSHA t of
        (Inl err, t1) \<Rightarrow> (Returned (Inl (''failed to get commit diff: '' @ err)), t1)
      | (Inr commit, t1) \<Rightarrow>
          (if length commitSHA < 8
           then (Panicked ''slice bounds out of range'', t1)
           else (Returned (Inr (
                   ''=== COMMIT DIFF: '' @ take 8 commitSHA @ '' ==='' @ nl @
                   ''Total files changed: '' @ itoa (int (length (rc_files commit))) @ nl @
                   ''Additions: +'' @ itoa (rc_stats_additions commit) @
                     '', Deletions: -'' @ itoa (rc_stats_deletions commit) @ nl @
                   ''='' @ strings_Repeat ''='' 50 @ nl @ nl @
                   diff_files 0 (rc_files commit))), t1)))"

definition GetPullRequestDetails ::
  "env \<Rightarrow> string \<Rightarrow> string \<Rightarrow> int \<Rightarrow> trace \<Rightarrow> (error + PRDetails) \<times> trace" where
  "GetPullRequestDetails e org repoName prNumber t =
     (case PullRequests_Get e org repoName prNumber t of
        (Inl err, t1) \<Rightarrow> (Inl (''failed to get PR details: '' @ err), t1)
      | (Inr pr, t1) \<Rightarrow>
          (case PullRequests_ListFiles e org repoName prNumber t1 of
             (Inl err, t2) \<Rightarrow> (Inl (''failed to get PR files: '' @ err), t2)
           | (Inr prFiles, t2) \<Rightarrow>
               (case PullRequests_ListReviews e org repoName prNumber t2 of
                  (Inl err, t3) \<Rightarrow> (Inl (''failed to get PR reviews: '' @ err), t3)
                | (Inr reviews, t3) \<Rightarrow>
                    (Inr \<lparr> PullRequest = pr, Files = prFiles, Reviews = reviews \<rparr>, t3))))"


section \<open>Package handlers: the event classifier and the PR synchronization logic\<close>

text \<open>
  The handler holds the platform client (its organization), the tracker client (a pointer,
  nil when the tracker is not configured) and the logger (the trace).
\<close>

record WebhookHandler =
  githubClient_org :: string
  jiraClient_set :: bool

record request =
  req_body :: "error + string"
  req_event :: string

record response =
  resp_status :: nat
  resp_body :: string

text \<open>
  \<open>json.Unmarshal(body, &payload)\<close> into a nil \<open>map[string]interface{}\<close>: a syntax error
  is an error, an object fills the map, \<open>null\<close> leaves the map nil without an error, and every
  other JSON value is an \<open>UnmarshalTypeError\<close>.
\<close>

definition json_Unmarshal_map :: "env \<Rightarrow> string \<Rightarrow> error + jmap" where
  "json_Unmarshal_map e body =
     (case json_parse e body of
        Inl err \<Rightarrow> Inl err
      | Inr JNull \<Rightarrow> Inr None
      | Inr (JObj kvs) \<Rightarrow> Inr (Some kvs)
      | Inr (JBool b) \<Rightarrow>
          Inl ''json: cannot unmarshal bool into Go value of type map[string]interface {}''
      | Inr (JNum q) \<Rightarrow>
          Inl ''json: cannot unmarshal number into Go value of type map[string]interface {}''
      | Inr (JStr s) \<Rightarrow>
          Inl ''json: cannot unmarshal string into Go value of type map[string]interface {}''
      | Inr (JArr xs) \<Rightarrow>
          Inl ''json: cannot unmarshal array into Go value of type map[string]interface {}'')"

definition logNewRepository :: "RepoCreationInfo \<Rightarrow> trace" where
  "logNewRepository info =
     [LogInfo (''='' @ strings_Repeat ''='' 80),
      LogInfo ''NEW REPOSITORY CREATED!'',
      LogInfo (''='' @ strings_Repeat ''='' 80),
      LogInfo (''Repository Name: '' @ rci_RepoName info),
      LogInfo (''Created By: '' @ rci_CreatedBy info),
      LogInfo (''Created At: '' @ rci_CreatedAt info),
      LogInfo (''Description: '' @ rci_Description info),
      LogInfo (''Language: '' @ rci_Language info),
      LogInfo (''Private: '' @ fmt_bool (rci_Private info)),
      LogInfo (''Default Branch: '' @ rci_DefaultBranch info),
      LogInfo (''Clone URL: '' @ rci_CloneURL info),
      LogInfo (''SSH URL: '' @ rci_SSHURL info),
      LogInfo (''='' @ strings_Repeat ''='' 80)]"

definition logDetailedCommit :: "int \<Rightarrow> CommitInfo \<Rightarrow> trace" where
  "logDetailedCommit commitNum info =
     [LogInfo (''COMMIT #'' @ itoa commitNum @ '' DETAILS:''),
      LogInfo (''  SHA: '' @ ci_SHA info),
      LogInfo (''  Message: '' @ ci_Message info),
      LogInfo (''  Author: '' @ ci_Author info @ '' <'' @ ci_AuthorEmail info @ ''>''),
      LogInfo (''  Repository: '' @ ci_Repository info),
      LogInfo (''  Branch: '' @ ci_Branch info),
      LogInfo (''  Files Changed: '' @ itoa (ci_FilesChanged info)),
      LogInfo (''  Lines: +'' @ itoa (ci_Additions info) @ ''/-'' @ itoa (ci_Deletions info)),
      LogInfo ''  FILE DIFF CONTENT:'',
      LogInfo (strings_Repeat ''-'' 60),
      LogInfo (ci_DiffContent info),
      LogInfo (strings_Repeat ''-'' 60)]"

fun log_changed_files :: "nat \<Rightarrow> commit_file list \<Rightarrow> trace" where
  "log_changed_files i [] = []"
| "log_changed_files i (file # files) =
     LogInfo (''    '' @ itoa (int i + 1) @ ''. '' @ cf_filename file @
              '' (+'' @ itoa (cf_additions file) @ ''/-'' @ itoa (cf_deletions file) @
              '') ['' @ cf_status file @ '']'')
     # log_changed_files (i + 1) files"

definition logDetailedPR :: "env \<Rightarrow> string \<Rightarrow> PRDetails \<Rightarrow> trace" where
  "logDetailedPR e action details =
     (let pr = PullRequest details in
      [LogInfo (''PULL REQUEST '' @ strings_ToUpper e action @ '':''),
       LogInfo (''  Title: '' @ pr_title pr),
       LogInfo (''  Number: #'' @ itoa (pr_number pr)),
       LogInfo (''  Author: '' @ pr_user_login pr),
       LogInfo (''  State: '' @ pr_state pr),
       LogInfo (''  Source Branch: '' @ pr_head_ref pr),
       LogInfo (''  Target Branch: '' @ pr_base_ref pr),
       LogInfo (''  Files Changed: '' @ itoa (int (length (Files details)))),
       LogInfo (''  Reviews: '' @ itoa (int (length (Reviews details))))] @
      (if length (Files details) > 0
       then LogInfo ''  CHANGED FILES:'' # log_changed_files 0 (Files details)
       else []))"

definition extractRepoInfo :: "jmap \<Rightarrow> jmap \<Rightarrow> RepoCreationInfo" where
  "extractRepoInfo repo sender =
     \<lparr> rci_RepoName = as_string (index repo ''name''),
       rci_CreatedBy =
         (if sender \<noteq> None then as_string (index sender ''login'') else ''Unknown''),
       rci_CreatedAt = as_string (index repo ''created_at''),
       rci_Description = as_string (index repo ''description''),
       rci_Language = as_string (index repo ''language''),
       rci_Private = as_bool (index repo ''private''),
       rci_DefaultBranch = as_string (index repo ''default_branch''),
       rci_CloneURL = as_string (index repo ''clone_url''),
       rci_GitURL = as_string (index repo ''git_url''),
       rci_SSHURL = as_string (index repo ''ssh_url'') \<rparr>"

definition handleRepositoryEvent :: "WebhookHandler \<Rightarrow> env \<Rightarrow> jmap \<Rightarrow> trace \<Rightarrow> trace" where
  "handleRepositoryEvent h e payload t =
     (if \<not> is_string (index payload ''action'') \<or> as_string (index payload ''action'') \<noteq> ''created''
      then t
      else if \<not> is_map (index payload ''repository'')
      then t @ [LogError ''Invalid repository data in payload'']
      else
        (let repo = as_map (index payload ''repository'');
             sender = as_map (index payload ''sender'');
             repoInfo = extractRepoInfo repo sender;
             t1 = t @ logNewRepository repoInfo;
             webhookURL = ''https://c45078315703.ngrok-free.app/webhook/repo''
         in case CreateRepoWebhook e (githubClient_org h) (rci_RepoName repoInfo) webhookURL t1 of
              (Some err, t2) \<Rightarrow>
                t2 @ [LogError (''Failed to add webhook to new repo '' @ rci_RepoName repoInfo @
                                '': '' @ err)]
            | (None, t2) \<Rightarrow>
                t2 @ [LogInfo (''Successfully added webhook to new repo: '' @
                               rci_RepoName repoInfo)]))"

definition handlePushEvent :: "jmap \<Rightarrow> trace \<Rightarrow> trace" where
  "handlePushEvent payload t =
     (let repoData = as_map (index payload ''repository'');
          repoName = as_string (index repoData ''name'');
          pusher = as_map (index payload ''pusher'');
          pusherName = as_string (index pusher ''name'')
      in t @ [LogInfo (''Push event detected in repo: '' @ repoName @ '' by '' @ pusherName)])"

definition handlePullRequestEvent :: "env \<Rightarrow> jmap \<Rightarrow> trace \<Rightarrow> trace" where
  "handlePullRequestEvent e payload t =
     (let action = as_string (index payload ''action'');
          prData = as_map (index payload ''pull_request'');
          title = as_string (index prData ''title'');
          number = as_float64 (index prData ''number'')
      in t @ [LogInfo (''PR event: '' @ action @ '' - #'' @ fmt_f0 e number @ '': '' @ title)])"

text \<open>
  The body of the loop of \<open>handlePushEventDetailed\<close> for the commit at index \<open>i\<close>: \<open>continue\<close>
  returns from the body, a panic of \<open>GetFileDiff\<close> leaves it.
\<close>

definition handle_commit ::
  "WebhookHandler \<Rightarrow> env \<Rightarrow> string \<Rightarrow> string \<Rightarrow> nat \<Rightarrow> json \<Rightarrow> trace \<Rightarrow> unit outcome \<times> trace" where
  "handle_commit h e repoName branch i commitInterface t =
     (if \<not> is_map commitInterface then (Returned (), t)
      else
        (let commitData = as_map commitInterface;
             commitSHA = as_string (index commitData ''id'');
             message = as_string (index commitData ''message'');
             author = as_map (index commitData ''author'');
             authorName = as_string (index author ''name'');
             authorEmail = as_string (index author ''email'')
         in case GetCommitDetails e (githubClient_org h) repoName commitSHA t of
              (Inl err, t1) \<Rightarrow>
                (Returned (), t1 @ [LogError (''Failed to get commit details: '' @ err)])
            | (Inr commitDetails, t1) \<Rightarrow>
                (case GetFileDiff e (githubClient_org h) repoName commitSHA t1 of
                   (Panicked p, t2) \<Rightarrow> (Panicked p, t2)
                 | (Returned r, t2) \<Rightarrow>
                     (let (diffContent, t3) =
                            (case r of
                               Inl err \<Rightarrow>
                                 (''Diff unavailable'',
                                  t2 @ [LogError (''Failed to get file diff: '' @ err)])
                             | Inr d \<Rightarrow> (d, t2));
                          commitInfo =
                            \<lparr> ci_SHA = commitSHA,
                              ci_Message = message,
                              ci_Author = authorName,
                              ci_AuthorEmail = authorEmail,
                              ci_Date = time_Now_Format e t3 ''2006-01-02T15:04:05Z07:00'',
                              ci_FilesChanged = int (length (rc_files commitDetails)),
                              ci_Additions = rc_stats_additions commitDetails,
                              ci_Deletions = rc_stats_deletions commitDetails,
                              ci_Repository = repoName,
                              ci_Branch = branch,
                              ci_DiffContent = diffContent \<rparr>
                      in (Returned (), t3 @ logDetailedCommit (int i + 1) commitInfo)))))"

fun handle_commits ::
  "WebhookHandler \<Rightarrow> env \<Rightarrow> string \<Rightarrow> string \<Rightarrow> nat \<Rightarrow> json list \<Rightarrow> trace \<Rightarrow> unit outcome \<times> trace" where
  "handle_commits h e repoName branch i [] t = (Returned (), t)"
| "handle_commits h e repoName branch i (c # cs) t =
     (case handle_commit h e repoName branch i c t of
        (Panicked p, t1) \<Rightarrow> (Panicked p, t1)
      | (Returned u, t1) \<Rightarrow> handle_commits h e repoName branch (i + 1) cs t1)"

definition handlePushEventDetailed ::
  "WebhookHandler \<Rightarrow> env \<Rightarrow> jmap \<Rightarrow> trace \<Rightarrow> unit outcome \<times> trace" where
  "handlePushEventDetailed h e payload t =
     (let repoData = as_map (index payload ''repository'');
          repoName = as_string (index repoData ''name'');
          ref = as_string (index payload ''ref'');
          branch = strings_TrimPrefix ref ''refs/heads/'';
          pusher = as_map (index payload ''pusher'');
          pusherName = as_string (index pusher ''name'')
      in case index payload ''commits'' of
           JArr commits \<Rightarrow>
             handle_commits h e repoName branch 0 commits
               (t @ [LogInfo (''DETAILED PUSH EVENT - Repo: '' @ repoName @ '', Branch: '' @ branch @
                              '', Pusher: '' @ pusherName @ '', Commits: '' @
                              itoa (int (length commits)))])
         | _ \<Rightarrow> (Returned (), t @ [LogError ''No commits found in push payload'']))"

definition handlePROpened :: "env \<Rightarrow> PRIssueInfo \<Rightarrow> trace \<Rightarrow> trace" where
  "handlePROpened e prInfo t =
     (let t0 = t @ [LogInfo (''Creating Jira issue for PR #'' @ itoa (PRNumber prInfo) @ '' in '' @
                             RepoName prInfo)]
      in case CreatePRIssue e prInfo t0 of
           (Inl err, t1) \<Rightarrow> t1 @ [LogError (''Failed to create Jira issue: '' @ err)]
         | (Inr i, t1) \<Rightarrow>
             t1 @ [LogInfo (''Created Jira issue: '' @ issue_key i @ '' for PR #'' @
                            itoa (PRNumber prInfo) @ '' in Open_PR status'')])"

definition handlePRMerged :: "env \<Rightarrow> PRIssueInfo \<Rightarrow> trace \<Rightarrow> trace" where
  "handlePRMerged e prInfo t =
     (let t0 = t @ [LogInfo (''Moving PR #'' @ itoa (PRNumber prInfo) @
                             '' to Merged_PR status in Jira'')]
      in case MovePRToMerged e (RepoName prInfo) (PRNumber prInfo) t0 of
           (Some err, t1) \<Rightarrow> t1 @ [LogError (''Failed to move PR to merged: '' @ err)]
         | (None, t1) \<Rightarrow>
             t1 @ [LogInfo (''Moved PR #'' @ itoa (PRNumber prInfo) @
                            '' to Merged_PR status successfully'')])"

text \<open>The line \<open>handlePullRequestEventDetailed\<close> logs before it fetches the PR.\<close>

definition detailed_pr_banner :: "string \<Rightarrow> string \<Rightarrow> int \<Rightarrow> string \<Rightarrow> event" where
  "detailed_pr_banner action repoName prNumber userName =
     LogInfo (''DETAILED PR EVENT - Action: '' @ action @ '', Repo: '' @ repoName @ '', PR #'' @
              itoa prNumber @ '' by '' @ userName)"

definition handlePullRequestEventDetailed ::
  "WebhookHandler \<Rightarrow> env \<Rightarrow> jmap \<Rightarrow> trace \<Rightarrow> unit outcome \<times> trace" where
  "handlePullRequestEventDetailed h e payload t =
     (let action = as_string (index payload ''action'');
          prData = as_map (index payload ''pull_request'');
          repoData = as_map (index payload ''repository'');
          repoName = as_string (index repoData ''name'')
      in case must_float64 (index prData ''number'') of
           Panicked p \<Rightarrow> (Panicked p, t)
         | Returned number \<Rightarrow>
             (let prNumber = go_int number;
                  title = as_string (index prData ''title'');
                  user = as_map (index prData ''user'');
                  userName = as_string (index user ''login'');
                  head = as_map (index prData ''head'');
                  base = as_map (index prData ''base'');
                  sourceBranch = as_string (index head ''ref'');
                  targetBranch = as_string (index base ''ref'');
                  prURL = as_string (index prData ''html_url'');
                  t1 = t @ [detailed_pr_banner action repoName prNumber userName]
              in case GetPullRequestDetails e (githubClient_org h) repoName prNumber t1 of
                   (Inl err, t2) \<Rightarrow>
                     (Returned (), t2 @ [LogError (''Failed to get PR details: '' @ err)])
                 | (Inr prDetails, t2) \<Rightarrow>
                     (let changedFiles = map cf_filename (Files prDetails);
                          prInfo =
                            \<lparr> PRNumber = prNumber,
                              PRTitle = title,
                              RepoName = repoName,
                              Author = userName,
                              SourceBranch = sourceBranch,
                              TargetBranch = targetBranch,
                              FilesChanged = changedFiles,
                              PRLink = prURL,
                              Action = action \<rparr>;
                          t3 =
                            (if jiraClient_set h then
                               (if action = ''opened'' then handlePROpened e prInfo t2
                                else if action = ''closed'' then
                                  (if as_bool (index prData ''merged'')
                                   then handlePRMerged e (prInfo\<lparr>Action := ''merged''\<rparr>) t2
                                   else t2)
                                else if action = ''synchronize'' then
                                  t2 @ [LogInfo (''PR #'' @ itoa prNumber @
                                                 '' updated - keeping existing Jira issue'')]
                                else t2)
                             else t2)
                      in (Returned (), t3 @ logDetailedPR e action prDetails))))"

text \<open>
  The two HTTP entry points. \<open>http.Error(w, msg, code)\<close> writes \<open>msg\<close> and a newline as a
  plain-text body. When the dispatched handler panics, the statements that write the response
  are not reached.
\<close>

definition HandleOrgWebhook ::
  "WebhookHandler \<Rightarrow> env \<Rightarrow> request \<Rightarrow> trace \<Rightarrow> response outcome \<times> trace" where
  "HandleOrgWebhook h e r t =
     (case req_body r of
        Inl err \<Rightarrow>
          (Returned \<lparr> resp_status = 400, resp_body = ''Invalid request body'' @ nl \<rparr>,
           t @ [LogError (''Failed to read request body: '' @ err)])
      | Inr body \<Rightarrow>
          (let eventType = req_event r in
           if eventType = [] then
             (Returned \<lparr> resp_status = 400, resp_body = ''Missing event type'' @ nl \<rparr>,
              t @ [LogError ''Missing X-GitHub-Event header''])
           else
             (case json_Unmarshal_map e body of
                Inl err \<Rightarrow>
                  (Returned \<lparr> resp_status = 400, resp_body = ''Invalid JSON payload'' @ nl \<rparr>,
                   t @ [LogError (''Failed to parse JSON payload: '' @ err)])
              | Inr payload \<Rightarrow>
                  (let t1 =
                         (if eventType = ''repository'' then handleRepositoryEvent h e payload t
                          else if eventType = ''push'' then handlePushEvent payload t
                          else if eventType = ''pull_request'' then
                            handlePullRequestEvent e payload t
                          else if eventType = ''ping'' then
                            t @ [LogInfo
                              ''Received ping event from GitHub - webhook setup successful!'']
                          else t @ [LogInfo (''Received org-level event: '' @ eventType)])
                   in (Returned \<lparr> resp_status = 200,
                                  resp_body = ''Organization webhook processed successfully'' \<rparr>,
                       t1)))))"

definition HandleRepoWebhook ::
  "WebhookHandler \<Rightarrow> env \<Rightarrow> request \<Rightarrow> trace \<Rightarrow> response outcome \<times> trace" where
  "HandleRepoWebhook h e r t =
     (case req_body r of
        Inl err \<Rightarrow>
          (Returned \<lparr> resp_status = 400, resp_body = ''Invalid request body'' @ nl \<rparr>,
           t @ [LogError (''Failed to read request body: '' @ err)])
      | Inr body \<Rightarrow>
          (let eventType = req_event r in
           if eventType = [] then
             (Returned \<lparr> resp_status = 400, resp_body = ''Missing event type'' @ nl \<rparr>,
              t @ [LogError ''Missing X-GitHub-Event header''])
           else
             (case json_Unmarshal_map e body of
                Inl err \<Rightarrow>
                  (Returned \<lparr> resp_status = 400, resp_body = ''Invalid JSON payload'' @ nl \<rparr>,
                   t @ [LogError (''Failed to parse JSON payload: '' @ err)])
              | Inr payload \<Rightarrow>
                  (case
                     (if eventType = ''push'' then handlePushEventDetailed h e payload t
                      else if eventType = ''pull_request'' then
                        handlePullRequestEventDetailed h e payload t
                      else if eventType = ''ping'' then
                        (Returned (),
                         t @ [LogInfo
                           ''Received ping event from GitHub - repo webhook setup successful!''])
                      else
                        (Returned (),
                         t @ [LogInfo (''Received repo-level event: '' @ eventType)]))
                   of
                     (Panicked p, t1) \<Rightarrow> (Panicked p, t1)
                   | (Returned u, t1) \<Rightarrow>
                       (Returned \<lparr> resp_status = 200,
                                   resp_body = ''Repository webhook processed successfully'' \<rparr>,
                        t1)))))"



section \<open>The payload as the pull-request handler reads it\<close>

text \<open>
  Names for the values \<open>handlePullRequestEventDetailed\<close> extracts from a payload, for the PR
  number \<open>prNumber\<close> it converted and the files the enrichment returned, and for its enrichment
  step: the call of \<open>GetPullRequestDetails\<close> on the trace that ends with the line logged
  before it.
\<close>

definition payload_action :: "jmap \<Rightarrow> string" where
  "payload_action payload = as_string (index payload ''action'')"

definition payload_prData :: "jmap \<Rightarrow> jmap" where
  "payload_prData payload = as_map (index payload ''pull_request'')"

definition payload_repoName :: "jmap \<Rightarrow> string" where
  "payload_repoName payload = as_string (index (as_map (index payload ''repository'')) ''name'')"

definition payload_userName :: "jmap \<Rightarrow> string" where
  "payload_userName payload =
     as_string (index (as_map (index (payload_prData payload) ''user'')) ''login'')"

definition payload_prInfo :: "jmap \<Rightarrow> int \<Rightarrow> commit_file list \<Rightarrow> PRIssueInfo" where
  "payload_prInfo payload prNumber files =
     \<lparr> PRNumber = prNumber,
       PRTitle = as_string (index (payload_prData payload) ''title''),
       RepoName = payload_repoName payload,
       Author = payload_userName payload,
       SourceBranch = as_string (index (as_map (index (payload_prData payload) ''head'')) ''ref''),
       TargetBranch = as_string (index (as_map (index (payload_prData payload) ''base'')) ''ref''),
       FilesChanged = map cf_filename files,
       PRLink = as_string (index (payload_prData payload) ''html_url''),
       Action = payload_action payload \<rparr>"

definition enrich ::
  "WebhookHandler \<Rightarrow> env \<Rightarrow> jmap \<Rightarrow> rat \<Rightarrow> trace \<Rightarrow> (error + PRDetails) \<times> trace" where
  "enrich h e payload q t =
     GetPullRequestDetails e (githubClient_org h) (payload_repoName payload) (go_int q)
       (t @ [detailed_pr_banner (payload_action payload) (payload_repoName payload) (go_int q)
               (payload_userName payload)])"


text \<open>More observations on a trace.\<close>

fun is_search_call :: "event \<Rightarrow> bool" where
  "is_search_call (JiraIssueSearch q n) = True"
| "is_search_call e = False"




section \<open>Concrete scenarios\<close>

text \<open>
  A handler for the organization \<open>acme\<close> with the tracker configured, request bodies with the
  documents they denote, and upstream services that answer every request successfully. The
  scenarios below change one answer at a time.
\<close>

definition h_acme :: WebhookHandler where
  "h_acme = \<lparr> githubClient_org = ''acme'', jiraClient_set = True \<rparr>"

definition quoted :: "string \<Rightarrow> string" where
  "quoted s = dquote @ s @ dquote"

definition body_pr :: "string \<Rightarrow> string \<Rightarrow> string" where
  "body_pr action merged =
     ''{'' @ quoted ''action'' @ '':'' @ quoted action @ '','' @
     quoted ''pull_request'' @ '':{'' @ quoted ''number'' @ '':7,'' @
       quoted ''title'' @ '':'' @ quoted ''Add parser'' @ '','' @
       quoted ''merged'' @ '':'' @ merged @ ''},'' @
     quoted ''repository'' @ '':{'' @ quoted ''name'' @ '':'' @ quoted ''widgets'' @ ''}}''"

definition payload_pr :: "string \<Rightarrow> bool \<Rightarrow> json" where
  "payload_pr action merged =
     JObj [(''action'', JStr action),
           (''pull_request'',
              JObj [(''number'', JNum 7), (''title'', JStr ''Add parser''),
                    (''merged'', JBool merged)]),
           (''repository'', JObj [(''name'', JStr ''widgets'')])]"

definition body_push :: string where
  "body_push =
     ''{'' @ quoted ''repository'' @ '':{'' @ quoted ''name'' @ '':'' @ quoted ''widgets'' @ ''},'' @
     quoted ''ref'' @ '':'' @ quoted ''refs/heads/main'' @ '','' @
     quoted ''commits'' @ '':[{'' @ quoted ''id'' @ '':'' @ quoted ''0123456789abcdef'' @ '','' @
       quoted ''message'' @ '':'' @ quoted ''fix'' @ ''}]}''"

definition commit_fix :: json where
  "commit_fix = JObj [(''id'', JStr ''0123456789abcdef''), (''message'', JStr ''fix'')]"

definition payload_push :: json where
  "payload_push =
     JObj [(''repository'', JObj [(''name'', JStr ''widgets'')]),
           (''ref'', JStr ''refs/heads/main''),
           (''commits'', JArr [commit_fix])]"

definition parse_known :: "string \<Rightarrow> error + json" where
  "parse_known b =
     (if b = body_pr ''opened'' ''false'' then Inr (payload_pr ''opened'' False)
      else if b = body_pr ''closed'' ''true'' then Inr (payload_pr ''closed'' True)
      else if b = body_pr ''closed'' ''false'' then Inr (payload_pr ''closed'' False)
      else if b = body_push then Inr payload_push
      else if b = ''{}'' then Inr (JObj [])
      else if b = ''[]'' then Inr (JArr [])
      else Inl ''invalid character'')"

definition req :: "string \<Rightarrow> string \<Rightarrow> request" where
  "req eventType b = \<lparr> req_body = Inr b, req_event = eventType \<rparr>"

definition file_parser :: commit_file where
  "file_parser =
     \<lparr> cf_filename = ''parser.go'', cf_additions = 12, cf_deletions = 3,
       cf_status = ''modified'', cf_patch = None \<rparr>"

definition pr_seven :: pull_request where
  "pr_seven =
     \<lparr> pr_title = ''Add parser'', pr_number = 7, pr_user_login = ''dev'', pr_state = ''open'',
       pr_head_ref = ''feature'', pr_base_ref = ''main'' \<rparr>"

definition commit_stats :: repository_commit where
  "commit_stats = \<lparr> rc_files = [file_parser], rc_stats_additions = 12, rc_stats_deletions = 3 \<rparr>"

definition workflow :: "transition list" where
  "workflow =
     [\<lparr> transition_id = ''11'', transition_to_name = ''Open_PR'' \<rparr>,
      \<lparr> transition_id = ''21'', transition_to_name = ''Merged_PR'' \<rparr>,
      \<lparr> transition_id = ''31'', transition_to_name = ''Merged_PR'' \<rparr>]"

definition env_ok :: env where
  "env_ok =
     \<lparr> gh_PullRequests_Get = (\<lambda>t org r n. Inr pr_seven),
       gh_PullRequests_ListFiles = (\<lambda>t org r n. Inr [file_parser]),
       gh_PullRequests_ListReviews = (\<lambda>t org r n. Inr []),
       gh_Repositories_GetCommit = (\<lambda>t org r s. Inr commit_stats),
       gh_Repositories_CreateHook = (\<lambda>t org r hk. None),
       jira_Issue_Create = (\<lambda>t f. Inr \<lparr> issue_key = ''REP-1'' \<rparr>),
       jira_Issue_Search = (\<lambda>t q n. Inr [\<lparr> issue_key = ''REP-1'' \<rparr>]),
       jira_Issue_GetTransitions = (\<lambda>t k. Inr workflow),
       jira_Issue_DoTransition = (\<lambda>t k i. None),
       json_parse = parse_known,
       strings_ToUpper = map (\<lambda>c. if c = CHR ''o'' then CHR ''O'' else c),
       fmt_f0 = (\<lambda>q. itoa (go_int q)),
       time_Now_Format = (\<lambda>t layout. ''2025-01-01 00:00:00'') \<rparr>"

text \<open>The tracker cannot list the transitions of an issue.\<close>

definition env_no_transitions :: env where
  "env_no_transitions =
     env_ok \<lparr> jira_Issue_GetTransitions := (\<lambda>t k. Inl ''503 Service Unavailable'') \<rparr>"

text \<open>The tracker refuses to create an issue.\<close>

definition env_no_create :: env where
  "env_no_create = env_ok \<lparr> jira_Issue_Create := (\<lambda>t f. Inl ''401 Unauthorized'') \<rparr>"

text \<open>The search of the tracker finds no issue.\<close>

definition env_no_match :: env where
  "env_no_match = env_ok \<lparr> jira_Issue_Search := (\<lambda>t q n. Inr []) \<rparr>"

text \<open>The platform cannot list the files of a pull request.\<close>

definition env_no_files :: env where
  "env_no_files = env_ok \<lparr> gh_PullRequests_ListFiles := (\<lambda>t org r n. Inl ''502 Bad Gateway'') \<rparr>"

text \<open>The platform returns a commit the first time it is asked for it, and fails after that.\<close>

definition env_commit_once :: env where
  "env_commit_once =
     env_ok \<lparr> gh_Repositories_GetCommit :=
       (\<lambda>t org r s. if GhRepositoriesGetCommit org r s \<in> set t then Inl ''502 Bad Gateway''
                     else Inr commit_stats) \<rparr>"

text \<open>The platform has no such commit.\<close>

definition env_no_commit :: env where
  "env_no_commit = env_ok \<lparr> gh_Repositories_GetCommit := (\<lambda>t org r s. Inl ''404 Not Found'') \<rparr>"


section \<open>Facts about traces and primitives\<close>

lemma tracker_calls_append: "tracker_calls (t @ u) = tracker_calls t @ tracker_calls u"
  by (simp add: tracker_calls_def)

lemma platform_calls_append: "platform_calls (t @ u) = platform_calls t @ platform_calls u"
  by (simp add: platform_calls_def)

lemma error_logs_append: "error_logs (t @ u) = error_logs t @ error_logs u"
  by (simp add: error_logs_def)

lemma moveToStatus_loop_find:
  "moveToStatus_loop e k target trs t =
     (case find (\<lambda>tr. transition_to_name tr = target) trs of
        None \<Rightarrow> (Some (''no transition found to status: '' @ target), t)
      | Some tr \<Rightarrow> Issue_DoTransition e k (transition_id tr) t)"
  by (induction trs) simp_all


lemma tracker_calls_log_changed_files [simp]:
  "filter is_tracker_call (log_changed_files i fs) = []"
  by (induction fs arbitrary: i) simp_all

lemma error_logs_log_changed_files [simp]: "filter is_error_log (log_changed_files i fs) = []"
  by (induction fs arbitrary: i) simp_all

lemma create_calls_log_changed_files [simp]: "filter is_create_call (log_changed_files i fs) = []"
  by (induction fs arbitrary: i) simp_all

lemma tracker_calls_logDetailedPR [simp]: "filter is_tracker_call (logDetailedPR e a d) = []"
  by (simp add: logDetailedPR_def Let_def)

lemma error_logs_logDetailedPR [simp]: "filter is_error_log (logDetailedPR e a d) = []"
  by (simp add: logDetailedPR_def Let_def)

lemma create_calls_logDetailedPR [simp]: "filter is_create_call (logDetailedPR e a d) = []"
  by (simp add: logDetailedPR_def Let_def)

lemma GetPullRequestDetails_cases:
  "GetPullRequestDetails e org r n t =
     (case gh_PullRequests_Get e t org r n of
        Inl err \<Rightarrow> (Inl (''failed to get PR details: '' @ err), t @ [GhPullRequestsGet org r n])
      | Inr pr \<Rightarrow>
          (case gh_PullRequests_ListFiles e (t @ [GhPullRequestsGet org r n]) org r n of
             Inl err \<Rightarrow>
               (Inl (''failed to get PR files: '' @ err),
                t @ [GhPullRequestsGet org r n, GhPullRequestsListFiles org r n])
           | Inr fs \<Rightarrow>
               (case gh_PullRequests_ListReviews e
                       (t @ [GhPullRequestsGet org r n, GhPullRequestsListFiles org r n]) org r n of
                  Inl err \<Rightarrow>
                    (Inl (''failed to get PR reviews: '' @ err),
                     t @ [GhPullRequestsGet org r n, GhPullRequestsListFiles org r n,
                          GhPullRequestsListReviews org r n])
                | Inr rs \<Rightarrow>
                    (Inr \<lparr> PullRequest = pr, Files = fs, Reviews = rs \<rparr>,
                     t @ [GhPullRequestsGet org r n, GhPullRequestsListFiles org r n,
                          GhPullRequestsListReviews org r n]))))"
  by (simp add: GetPullRequestDetails_def PullRequests_Get_def PullRequests_ListFiles_def
      PullRequests_ListReviews_def split: sum.splits)

lemma GetPullRequestDetails_trace:
  "\<exists>calls. snd (GetPullRequestDetails e org r n t) = t @ calls \<and>
     filter is_tracker_call calls = [] \<and> filter is_error_log calls = [] \<and>
     filter is_create_call calls = []"
  by (simp add: GetPullRequestDetails_cases split: sum.splits)

lemma tracker_calls_GetPullRequestDetails:
  "GetPullRequestDetails e org r n t = (res, t2) \<Longrightarrow>
     filter is_tracker_call t2 = filter is_tracker_call t"
  using GetPullRequestDetails_trace [of e org r n t] by auto

lemma error_logs_GetPullRequestDetails:
  "GetPullRequestDetails e org r n t = (res, t2) \<Longrightarrow>
     filter is_error_log t2 = filter is_error_log t"
  using GetPullRequestDetails_trace [of e org r n t] by auto

lemma create_calls_GetPullRequestDetails:
  "GetPullRequestDetails e org r n t = (res, t2) \<Longrightarrow>
     filter is_create_call t2 = filter is_create_call t"
  using GetPullRequestDetails_trace [of e org r n t] by auto

lemma handlePullRequestEventDetailed_panics:
  "must_float64 (index (as_map (index payload ''pull_request'')) ''number'') = Panicked p \<Longrightarrow>
   handlePullRequestEventDetailed h e payload t = (Panicked p, t)"
  by (simp add: handlePullRequestEventDetailed_def Let_def)

lemma must_float64_cases:
  "(\<exists>q. j = JNum q \<and> must_float64 j = Returned q) \<or>
   must_float64 j = Panicked ''interface conversion: interface {} is not float64''"
  by (cases j) (simp_all add: must_float64_def)

lemma HandleRepoWebhook_pull_request:
  "req_body r = Inr body \<Longrightarrow> req_event r = ''pull_request'' \<Longrightarrow>
   json_Unmarshal_map e body = Inr payload \<Longrightarrow>
   HandleRepoWebhook h e r t =
     (case handlePullRequestEventDetailed h e payload t of
        (Panicked p, t1) \<Rightarrow> (Panicked p, t1)
      | (Returned u, t1) \<Rightarrow>
          (Returned \<lparr> resp_status = 200,
                      resp_body = ''Repository webhook processed successfully'' \<rparr>, t1))"
  by (simp add: HandleRepoWebhook_def Let_def)

lemma banner_is_log [simp]:
  "\<not> is_tracker_call (detailed_pr_banner a r n u)"
  "\<not> is_error_log (detailed_pr_banner a r n u)"
  "\<not> is_create_call (detailed_pr_banner a r n u)"
  by (simp_all add: detailed_pr_banner_def)

lemma must_float64_JNum [simp]: "must_float64 (JNum q) = Returned q"
  by (simp add: must_float64_def)

lemma handler_enriched:
  assumes number: "index (payload_prData payload) ''number'' = JNum q"
    and enriched: "enrich h e payload q t = (Inr d, t2)"
  shows "handlePullRequestEventDetailed h e payload t =
     (Returned (),
      (if jiraClient_set h then
         (if payload_action payload = ''opened''
          then handlePROpened e (payload_prInfo payload (go_int q) (Files d)) t2
          else if payload_action payload = ''closed'' then
            (if as_bool (index (payload_prData payload) ''merged'')
             then handlePRMerged e
                    ((payload_prInfo payload (go_int q) (Files d))\<lparr>Action := ''merged''\<rparr>) t2
             else t2)
          else if payload_action payload = ''synchronize'' then
            t2 @ [LogInfo (''PR #'' @ itoa (go_int q) @ '' updated - keeping existing Jira issue'')]
          else t2)
       else t2) @ logDetailedPR e (payload_action payload) d)"
  using number enriched
  by (simp add: handlePullRequestEventDetailed_def enrich_def payload_prData_def
      payload_action_def payload_repoName_def payload_userName_def payload_prInfo_def Let_def)

lemma handler_not_enriched:
  assumes number: "index (payload_prData payload) ''number'' = JNum q"
    and failed: "enrich h e payload q t = (Inl err, t2)"
  shows "handlePullRequestEventDetailed h e payload t =
     (Returned (), t2 @ [LogError (''Failed to get PR details: '' @ err)])"
  using number failed
  by (simp add: handlePullRequestEventDetailed_def enrich_def payload_prData_def
      payload_action_def payload_repoName_def payload_userName_def Let_def)

lemma moveToStatus_cases:
  "moveToStatus e k target t =
     (case jira_Issue_GetTransitions e t k of
        Inl err \<Rightarrow> (Some err, t @ [JiraIssueGetTransitions k])
      | Inr trs \<Rightarrow>
          (case find (\<lambda>tr. transition_to_name tr = target) trs of
             None \<Rightarrow>
               (Some (''no transition found to status: '' @ target),
                t @ [JiraIssueGetTransitions k])
           | Some tr \<Rightarrow>
               (jira_Issue_DoTransition e (t @ [JiraIssueGetTransitions k]) k (transition_id tr),
                t @ [JiraIssueGetTransitions k, JiraIssueDoTransition k (transition_id tr)])))"
  by (simp add: moveToStatus_def Issue_GetTransitions_def Issue_DoTransition_def
      moveToStatus_loop_find split: sum.splits option.splits)

lemma moveToStatus_trace:
  "\<exists>att. snd (moveToStatus e k target t) = t @ JiraIssueGetTransitions k # att \<and>
     (att = [] \<or> (\<exists>i. att = [JiraIssueDoTransition k i]))"
  by (simp add: moveToStatus_cases split: sum.splits option.splits)

lemma handlePROpened_trace:
  "handlePROpened e prInfo t =
     (let t0 = t @ [LogInfo (''Creating Jira issue for PR #'' @ itoa (PRNumber prInfo) @ '' in '' @
                             RepoName prInfo)];
          issueData = issue_data prInfo (time_Now_Format e t0 ''2006-01-02 15:04:05'')
      in case jira_Issue_Create e t0 issueData of
           Inl err \<Rightarrow>
             t0 @ [JiraIssueCreate issueData,
                   LogError (''Failed to create Jira issue: failed to create issue in project REP: '' @
                             err)]
         | Inr i \<Rightarrow>
             snd (moveToStatus e (issue_key i) ''Open_PR'' (t0 @ [JiraIssueCreate issueData])) @
             [LogInfo (''Created Jira issue: '' @ issue_key i @ '' for PR #'' @
                       itoa (PRNumber prInfo) @ '' in Open_PR status'')])"
  by (simp add: handlePROpened_def CreatePRIssue_def Issue_Create_def Let_def
      split: sum.splits prod.splits)


lemma moveToStatus_filters:
  "filter is_create_call (snd (moveToStatus e k target t)) = filter is_create_call t"
  "filter is_error_log (snd (moveToStatus e k target t)) = filter is_error_log t"
  "filter is_search_call (snd (moveToStatus e k target t)) = filter is_search_call t"
  using moveToStatus_trace [of e k target t] by auto

lemmas fixture_defs =
  h_acme_def quoted_def body_pr_def payload_pr_def body_push_def commit_fix_def payload_push_def
  parse_known_def req_def file_parser_def pr_seven_def commit_stats_def workflow_def env_ok_def
  env_no_transitions_def env_no_create_def env_no_match_def env_no_files_def env_commit_once_def
  env_no_commit_def

lemmas go_defs =
  index_def as_string_def is_string_def as_bool_def as_float64_def as_map_def is_map_def
  must_float64_def go_int_def itoa_def itoa_nat.simps digit_def fmt_bool_def strings_Repeat_def
  strings_TrimPrefix_def nl_def dquote_def

lemmas client_defs =
  Issue_Create_def Issue_Search_def Issue_GetTransitions_def Issue_DoTransition_def
  moveToStatus_def pr_label_def CreatePRIssue_def pr_jql_def FindPRIssue_def MovePRToMerged_def
  Repositories_GetCommit_def Repositories_CreateHook_def PullRequests_Get_def
  PullRequests_ListFiles_def PullRequests_ListReviews_def CreateRepoWebhook_def
  GetCommitDetails_def GetFileDiff_def GetPullRequestDetails_def

lemmas handler_defs =
  json_Unmarshal_map_def handle_commit_def handlePushEventDetailed_def handlePROpened_def
  handlePRMerged_def detailed_pr_banner_def handlePullRequestEventDetailed_def
  HandleOrgWebhook_def HandleRepoWebhook_def handleRepositoryEvent_def handlePushEvent_def
  handlePullRequestEvent_def extractRepoInfo_def

lemmas view_defs =
  payload_action_def payload_prData_def payload_repoName_def payload_userName_def
  payload_prInfo_def enrich_def tracker_calls_def platform_calls_def error_logs_def


section \<open>The tracker client\<close>

text \<open>
  C8. \<open>moveToStatus\<close> first fetches the transitions available on the issue. It then executes the
  first transition whose destination status name is equal to the target name (equality of
  strings, so exact and case-sensitive) and returns the result of that request. If the fetch
  fails it returns that error; if no fetched transition has the target name it returns the error
  \<open>no transition found to status: <target>\<close>; in both cases no transition is executed.
\<close>

theorem C8_moveToStatus_first_exact_match:
  "moveToStatus e k target t =
     (case jira_Issue_GetTransitions e t k of
        Inl err \<Rightarrow> (Some err, t @ [JiraIssueGetTransitions k])
      | Inr trs \<Rightarrow>
          (case find (\<lambda>tr. transition_to_name tr = target) trs of
             None \<Rightarrow>
               (Some (''no transition found to status: '' @ target),
                t @ [JiraIssueGetTransitions k])
           | Some tr \<Rightarrow>
               (jira_Issue_DoTransition e (t @ [JiraIssueGetTransitions k]) k (transition_id tr),
                t @ [JiraIssueGetTransitions k, JiraIssueDoTransition k (transition_id tr)])))"
  by (simp add: moveToStatus_def Issue_GetTransitions_def Issue_DoTransition_def
      moveToStatus_loop_find split: sum.splits option.splits)

text \<open>
  With two transitions to \<open>Merged_PR\<close> on offer the first one (id 21) is executed; the target
  \<open>merged_pr\<close> differs in case from every destination name and nothing is executed.
\<close>

theorem C8_moveToStatus_witness:
  "moveToStatus env_ok ''REP-1'' ''Merged_PR'' [] =
     (None, [JiraIssueGetTransitions ''REP-1'', JiraIssueDoTransition ''REP-1'' ''21'']) \<and>
   moveToStatus env_ok ''REP-1'' ''merged_pr'' [] =
     (Some ''no transition found to status: merged_pr'', [JiraIssueGetTransitions ''REP-1''])"
  using C8_moveToStatus_first_exact_match [of env_ok "''REP-1''" "''Merged_PR''" "[]"]
    C8_moveToStatus_first_exact_match [of env_ok "''REP-1''" "''merged_pr''" "[]"]
  by (simp add: env_ok_def workflow_def)

text \<open>
  C10. \<open>FindPRIssue\<close> does not use its repository name: for all repository names and every PR
  number the search request is the same, the query \<open>project = "REP" AND labels = "pr-<n>"\<close> with
  at most one result, and so are the results of \<open>FindPRIssue\<close> and of \<open>MovePRToMerged\<close>. Pull
  requests with the same number in different repositories resolve to the same issue.
\<close>

theorem C10_lookup_ignores_repository:
  "FindPRIssue e r1 n t = FindPRIssue e r2 n t \<and>
   MovePRToMerged e r1 n t = MovePRToMerged e r2 n t \<and>
   snd (FindPRIssue e r1 n t) = t @ [JiraIssueSearch (pr_jql n) 1] \<and>
   pr_jql n = ''project = '' @ dquote @ ''REP'' @ dquote @ '' AND labels = '' @ dquote @
              ''pr-'' @ itoa n @ dquote"
  by (simp add: FindPRIssue_def MovePRToMerged_def Issue_Search_def pr_jql_def pr_label_def
      split: sum.splits list.splits)

text \<open>PR 7 of \<open>widgets\<close> and PR 7 of \<open>gadgets\<close> resolve to the same issue REP-1.\<close>

theorem C10_lookup_witness:
  "MovePRToMerged env_ok ''widgets'' 7 [] = MovePRToMerged env_ok ''gadgets'' 7 [] \<and>
   snd (MovePRToMerged env_ok ''gadgets'' 7 []) =
     [JiraIssueSearch (''project = '' @ dquote @ ''REP'' @ dquote @ '' AND labels = '' @ dquote @
                       ''pr-7'' @ dquote) 1,
      JiraIssueGetTransitions ''REP-1'', JiraIssueDoTransition ''REP-1'' ''21'']"
  using C10_lookup_ignores_repository [of env_ok "''widgets''" 7 "[]" "''gadgets''"]
  by (simp add: MovePRToMerged_def FindPRIssue_def Issue_Search_def moveToStatus_def
      Issue_GetTransitions_def Issue_DoTransition_def env_ok_def workflow_def pr_jql_def
      pr_label_def itoa_def itoa_nat.simps digit_def)


section \<open>The PR synchronization logic\<close>

text \<open>
  C1, as amended. For every \<open>pull_request\<close> payload with action \<open>opened\<close> handled on the
  repository-scope entry with the tracker configured and the enrichment succeeding, the handler
  returns and calls create-issue exactly once, with the labels \<open>github-pr\<close> and \<open>pr-<number>\<close>.
  If the creation fails, that failure is logged and no transition is attempted. If it succeeds,
  exactly one attempt to move the new issue to \<open>Open_PR\<close> follows (one call of
  \<open>moveToStatus\<close>: the transitions are fetched once and at most one is executed); the result of
  the attempt is discarded, so a failed attempt is not logged, the handler logs the creation
  as done, and no further tracker call is made (nothing is rolled back).
\<close>

theorem C1_opened_creates_then_one_silent_transition_attempt:
  assumes jira: "jiraClient_set h"
    and opened: "payload_action payload = ''opened''"
    and number: "index (payload_prData payload) ''number'' = JNum q"
    and enriched: "enrich h e payload q t = (Inr d, t2)"
  defines "t0 \<equiv> t2 @ [LogInfo (''Creating Jira issue for PR #'' @ itoa (go_int q) @ '' in '' @
                               payload_repoName payload)]"
  defines "issueData \<equiv> issue_data (payload_prInfo payload (go_int q) (Files d))
                          (time_Now_Format e t0 ''2006-01-02 15:04:05'')"
  defines "result \<equiv> handlePullRequestEventDetailed h e payload t"
  shows "if_labels issueData = [''github-pr'', ''pr-'' @ itoa (go_int q)] \<and>
    fst result = Returned () \<and>
    snd result =
      (case jira_Issue_Create e t0 issueData of
         Inl err \<Rightarrow>
           t0 @ [JiraIssueCreate issueData,
                 LogError (''Failed to create Jira issue: failed to create issue in project REP: '' @
                           err)]
       | Inr i \<Rightarrow>
           snd (moveToStatus e (issue_key i) ''Open_PR'' (t0 @ [JiraIssueCreate issueData])) @
           [LogInfo (''Created Jira issue: '' @ issue_key i @ '' for PR #'' @ itoa (go_int q) @
                     '' in Open_PR status'')]) @
      logDetailedPR e ''opened'' d \<and>
    filter is_create_call (snd result) = filter is_create_call t @ [JiraIssueCreate issueData] \<and>
    (\<forall>err. jira_Issue_Create e t0 issueData = Inl err \<longrightarrow>
       tracker_calls (snd result) = tracker_calls t @ [JiraIssueCreate issueData]) \<and>
    (\<forall>i. jira_Issue_Create e t0 issueData = Inr i \<longrightarrow>
       error_logs (snd result) = error_logs t \<and>
       (\<exists>att. tracker_calls (snd result) =
                tracker_calls t @ JiraIssueCreate issueData #
                  JiraIssueGetTransitions (issue_key i) # att \<and>
              (att = [] \<or> (\<exists>tid. att = [JiraIssueDoTransition (issue_key i) tid]))))"
proof -
  have trace: "snd result =
      (case jira_Issue_Create e t0 issueData of
         Inl err \<Rightarrow>
           t0 @ [JiraIssueCreate issueData,
                 LogError (''Failed to create Jira issue: failed to create issue in project REP: '' @
                           err)]
       | Inr i \<Rightarrow>
           snd (moveToStatus e (issue_key i) ''Open_PR'' (t0 @ [JiraIssueCreate issueData])) @
           [LogInfo (''Created Jira issue: '' @ issue_key i @ '' for PR #'' @ itoa (go_int q) @
                     '' in Open_PR status'')]) @
      logDetailedPR e ''opened'' d"
    and returned: "fst result = Returned ()"
    unfolding result_def t0_def issueData_def
    using jira opened
    by (simp_all add: handler_enriched [OF number enriched] handlePROpened_trace
        payload_prInfo_def Let_def split: sum.splits)
  have labels: "if_labels issueData = [''github-pr'', ''pr-'' @ itoa (go_int q)]"
    by (simp add: issueData_def issue_data_def pr_label_def payload_prInfo_def)
  have t2_creates: "filter is_create_call t2 = filter is_create_call t"
    and t2_tracker: "filter is_tracker_call t2 = filter is_tracker_call t"
    and t2_errors: "filter is_error_log t2 = filter is_error_log t"
    using GetPullRequestDetails_trace
      [of e "githubClient_org h" "payload_repoName payload" "go_int q"
        "t @ [detailed_pr_banner (payload_action payload) (payload_repoName payload) (go_int q)
               (payload_userName payload)]"]
      enriched
    by (auto simp: enrich_def)
  have creates:
    "filter is_create_call (snd result) = filter is_create_call t @ [JiraIssueCreate issueData]"
    by (simp add: trace t0_def t2_creates moveToStatus_filters split: sum.splits)
  have failed: "tracker_calls (snd result) = tracker_calls t @ [JiraIssueCreate issueData]"
    if "jira_Issue_Create e t0 issueData = Inl err" for err
    using that by (simp add: trace t0_def t2_tracker tracker_calls_def)
  have created: "error_logs (snd result) = error_logs t \<and>
       (\<exists>att. tracker_calls (snd result) =
                tracker_calls t @ JiraIssueCreate issueData #
                  JiraIssueGetTransitions (issue_key i) # att \<and>
              (att = [] \<or> (\<exists>tid. att = [JiraIssueDoTransition (issue_key i) tid])))"
    if "jira_Issue_Create e t0 issueData = Inr i" for i
  proof -
    obtain att where att:
      "snd (moveToStatus e (issue_key i) ''Open_PR'' (t0 @ [JiraIssueCreate issueData])) =
         (t0 @ [JiraIssueCreate issueData]) @ JiraIssueGetTransitions (issue_key i) # att"
      "att = [] \<or> (\<exists>tid. att = [JiraIssueDoTransition (issue_key i) tid])"
      using moveToStatus_trace by blast
    have "error_logs (snd result) = error_logs t"
      using that by (simp add: trace error_logs_def moveToStatus_filters t0_def t2_errors)
    moreover have "snd result =
        t0 @ JiraIssueCreate issueData # JiraIssueGetTransitions (issue_key i) # att @
        LogInfo (''Created Jira issue: '' @ issue_key i @ '' for PR #'' @ itoa (go_int q) @
                 '' in Open_PR status'') # logDetailedPR e ''opened'' d"
      using that by (simp add: trace att(1))
    then have "tracker_calls (snd result) =
        tracker_calls t @ JiraIssueCreate issueData # JiraIssueGetTransitions (issue_key i) # att"
      using att(2) by (auto simp: t0_def t2_tracker tracker_calls_def)
    ultimately show ?thesis using att(2) by blast
  qed
  from labels returned trace creates failed created show ?thesis by blast
qed


text \<open>
  The claim as written fails twice. When the tracker cannot list the transitions of the new
  issue, the attempt fails and no error line is logged; and when the creation fails, no
  transition is attempted at all.
\<close>

theorem C1_counterexample:
  "(\<forall>t k. jira_Issue_GetTransitions env_no_transitions t k = Inl ''503 Service Unavailable'') \<and>
   fst (HandleRepoWebhook h_acme env_no_transitions
          (req ''pull_request'' (body_pr ''opened'' ''false'')) []) =
     Returned \<lparr> resp_status = 200, resp_body = ''Repository webhook processed successfully'' \<rparr> \<and>
   tracker_calls (snd (HandleRepoWebhook h_acme env_no_transitions
          (req ''pull_request'' (body_pr ''opened'' ''false'')) [])) =
     [JiraIssueCreate
        (issue_data (payload_prInfo (as_map (payload_pr ''opened'' False)) 7 [file_parser])
           ''2025-01-01 00:00:00''),
      JiraIssueGetTransitions ''REP-1''] \<and>
   error_logs (snd (HandleRepoWebhook h_acme env_no_transitions
          (req ''pull_request'' (body_pr ''opened'' ''false'')) [])) = [] \<and>
   tracker_calls (snd (HandleRepoWebhook h_acme env_no_create
          (req ''pull_request'' (body_pr ''opened'' ''false'')) [])) =
     [JiraIssueCreate
        (issue_data (payload_prInfo (as_map (payload_pr ''opened'' False)) 7 [file_parser])
           ''2025-01-01 00:00:00'')]"
  by (simp add: fixture_defs go_defs client_defs handler_defs view_defs logDetailedPR_def Let_def)


text \<open>With every upstream call succeeding, the issue REP-1 is created and moved by transition 11.\<close>

theorem C1_opened_witness:
  "jiraClient_set h_acme \<and>
   payload_action (as_map (payload_pr ''opened'' False)) = ''opened'' \<and>
   index (payload_prData (as_map (payload_pr ''opened'' False))) ''number'' = JNum 7 \<and>
   enrich h_acme env_ok (as_map (payload_pr ''opened'' False)) 7 [] =
     (Inr \<lparr> PullRequest = pr_seven, Files = [file_parser], Reviews = [] \<rparr>,
      [detailed_pr_banner ''opened'' ''widgets'' 7 [],
       GhPullRequestsGet ''acme'' ''widgets'' 7, GhPullRequestsListFiles ''acme'' ''widgets'' 7,
       GhPullRequestsListReviews ''acme'' ''widgets'' 7]) \<and>
   if_labels (issue_data (payload_prInfo (as_map (payload_pr ''opened'' False)) 7 [file_parser])
                ''2025-01-01 00:00:00'') = [''github-pr'', ''pr-7''] \<and>
   tracker_calls (snd (handlePullRequestEventDetailed h_acme env_ok
                         (as_map (payload_pr ''opened'' False)) [])) =
     [JiraIssueCreate
        (issue_data (payload_prInfo (as_map (payload_pr ''opened'' False)) 7 [file_parser])
           ''2025-01-01 00:00:00''),
      JiraIssueGetTransitions ''REP-1'', JiraIssueDoTransition ''REP-1'' ''11'']"
proof -
  have jira: "jiraClient_set h_acme"
    by (simp add: h_acme_def)
  have opened: "payload_action (as_map (payload_pr ''opened'' False)) = ''opened''"
    by (simp add: view_defs go_defs payload_pr_def)
  have number: "index (payload_prData (as_map (payload_pr ''opened'' False))) ''number'' = JNum 7"
    by (simp add: view_defs go_defs payload_pr_def)
  have enriched: "enrich h_acme env_ok (as_map (payload_pr ''opened'' False)) 7 [] =
     (Inr \<lparr> PullRequest = pr_seven, Files = [file_parser], Reviews = [] \<rparr>,
      [detailed_pr_banner ''opened'' ''widgets'' 7 [],
       GhPullRequestsGet ''acme'' ''widgets'' 7, GhPullRequestsListFiles ''acme'' ''widgets'' 7,
       GhPullRequestsListReviews ''acme'' ''widgets'' 7])"
    by (simp add: view_defs go_defs client_defs fixture_defs)
  show ?thesis
    using C1_opened_creates_then_one_silent_transition_attempt [OF jira opened number enriched]
      jira opened number enriched
    by (simp add: fixture_defs go_defs client_defs view_defs issue_data_def)
qed

text \<open>
  C5. For every \<open>pull_request\<close> payload with action \<open>closed\<close> whose \<open>merged\<close> field is not
  true, handled on the repository-scope entry, the tracker calls of the trace are unchanged: no
  issue is created, searched or moved, whatever the upstream services answer.
\<close>

theorem C5_closed_unmerged_no_tracker_call:
  assumes body: "req_body r = Inr body"
    and event: "req_event r = ''pull_request''"
    and parsed: "json_Unmarshal_map e body = Inr payload"
    and closed: "payload_action payload = ''closed''"
    and unmerged: "\<not> as_bool (index (payload_prData payload) ''merged'')"
  shows "tracker_calls (snd (HandleRepoWebhook h e r t)) = tracker_calls t"
proof -
  let ?j = "index (as_map (index payload ''pull_request'')) ''number''"
  from must_float64_cases [of ?j] show ?thesis
  proof
    assume "must_float64 ?j = Panicked ''interface conversion: interface {} is not float64''"
    then show ?thesis
      by (simp add: HandleRepoWebhook_pull_request [OF body event parsed]
          handlePullRequestEventDetailed_panics tracker_calls_def)
  next
    assume "\<exists>q. ?j = JNum q \<and> must_float64 ?j = Returned q"
    then obtain q where q: "must_float64 ?j = Returned q" by blast
    show ?thesis
      using closed unmerged q
      by (auto simp: payload_action_def payload_prData_def HandleRepoWebhook_pull_request [OF body event parsed]
          handlePullRequestEventDetailed_def Let_def tracker_calls_def
          split: prod.splits sum.splits outcome.splits
          dest!: tracker_calls_GetPullRequestDetails)
  qed
qed

text \<open>A PR closed without a merge: response 200 and no tracker call.\<close>

theorem C5_closed_unmerged_witness:
  "req_body (req ''pull_request'' (body_pr ''closed'' ''false'')) =
     Inr (body_pr ''closed'' ''false'') \<and>
   req_event (req ''pull_request'' (body_pr ''closed'' ''false'')) = ''pull_request'' \<and>
   json_Unmarshal_map env_ok (body_pr ''closed'' ''false'') =
     Inr (as_map (payload_pr ''closed'' False)) \<and>
   payload_action (as_map (payload_pr ''closed'' False)) = ''closed'' \<and>
   \<not> as_bool (index (payload_prData (as_map (payload_pr ''closed'' False))) ''merged'') \<and>
   tracker_calls (snd (HandleRepoWebhook h_acme env_ok
                         (req ''pull_request'' (body_pr ''closed'' ''false'')) [])) = [] \<and>
   fst (HandleRepoWebhook h_acme env_ok (req ''pull_request'' (body_pr ''closed'' ''false'')) []) =
     Returned \<lparr> resp_status = 200, resp_body = ''Repository webhook processed successfully'' \<rparr>"
proof -
  have body: "req_body (req ''pull_request'' (body_pr ''closed'' ''false'')) =
      Inr (body_pr ''closed'' ''false'')"
    and event: "req_event (req ''pull_request'' (body_pr ''closed'' ''false'')) = ''pull_request''"
    by (simp_all add: req_def)
  have parsed: "json_Unmarshal_map env_ok (body_pr ''closed'' ''false'') =
      Inr (as_map (payload_pr ''closed'' False))"
    by (simp add: fixture_defs go_defs json_Unmarshal_map_def)
  have closed: "payload_action (as_map (payload_pr ''closed'' False)) = ''closed''"
    and unmerged:
      "\<not> as_bool (index (payload_prData (as_map (payload_pr ''closed'' False))) ''merged'')"
    by (simp_all add: view_defs go_defs payload_pr_def)
  have response:
    "fst (HandleRepoWebhook h_acme env_ok (req ''pull_request'' (body_pr ''closed'' ''false'')) []) =
     Returned \<lparr> resp_status = 200, resp_body = ''Repository webhook processed successfully'' \<rparr>"
    by (simp add: fixture_defs go_defs client_defs handler_defs Let_def)
  show ?thesis
    using C5_closed_unmerged_no_tracker_call [OF body event parsed closed unmerged, of h_acme "[]"]
      body event parsed closed unmerged response
    by (simp add: tracker_calls_def)
qed

lemma handlePRMerged_trace:
  "handlePRMerged e prInfo t =
     (let t0 = t @ [LogInfo (''Moving PR #'' @ itoa (PRNumber prInfo) @
                             '' to Merged_PR status in Jira'')];
          search = JiraIssueSearch (pr_jql (PRNumber prInfo)) 1
      in case jira_Issue_Search e t0 (pr_jql (PRNumber prInfo)) 1 of
           Inl err \<Rightarrow> t0 @ [search, LogError (''Failed to move PR to merged: '' @ err)]
         | Inr [] \<Rightarrow>
             t0 @ [search, LogError ''Failed to move PR to merged: PR issue not found'']
         | Inr (i # rest) \<Rightarrow>
             (case moveToStatus e (issue_key i) ''Merged_PR'' (t0 @ [search]) of
                (Some err, t4) \<Rightarrow> t4 @ [LogError (''Failed to move PR to merged: '' @ err)]
              | (None, t4) \<Rightarrow>
                  t4 @ [LogInfo (''Moved PR #'' @ itoa (PRNumber prInfo) @
                                 '' to Merged_PR status successfully'')]))"
  by (simp add: handlePRMerged_def MovePRToMerged_def FindPRIssue_def Issue_Search_def Let_def
      split: sum.splits list.splits prod.splits option.splits)

text \<open>
  C2. For every \<open>pull_request\<close> payload with action \<open>closed\<close> and \<open>merged\<close> true handled on
  the repository-scope entry with the tracker configured and the enrichment succeeding, the
  handler searches the tracker once, for project \<open>REP\<close> and label \<open>pr-<number>\<close>. Only when
  the search returns an issue does it call \<open>moveToStatus\<close> for \<open>Merged_PR\<close> on the first one.
  When the search fails or returns nothing, the search is the only tracker call, one error line
  is logged, and the response is still 200 with the confirmation body.
\<close>

theorem C2_merged_transition_only_if_found:
  assumes body: "req_body r = Inr body"
    and event: "req_event r = ''pull_request''"
    and parsed: "json_Unmarshal_map e body = Inr payload"
    and jira: "jiraClient_set h"
    and closed: "payload_action payload = ''closed''"
    and merged: "as_bool (index (payload_prData payload) ''merged'')"
    and number: "index (payload_prData payload) ''number'' = JNum q"
    and enriched: "enrich h e payload q t = (Inr d, t2)"
  defines "t0 \<equiv> t2 @ [LogInfo (''Moving PR #'' @ itoa (go_int q) @
                               '' to Merged_PR status in Jira'')]"
    and "search \<equiv> JiraIssueSearch (pr_jql (go_int q)) 1"
  defines "found \<equiv> jira_Issue_Search e t0 (pr_jql (go_int q)) 1"
    and "result \<equiv> HandleRepoWebhook h e r t"
  shows
    "pr_jql (go_int q) =
       ''project = '' @ dquote @ ''REP'' @ dquote @ '' AND labels = '' @ dquote @
       ''pr-'' @ itoa (go_int q) @ dquote \<and>
     fst result =
       Returned \<lparr> resp_status = 200, resp_body = ''Repository webhook processed successfully'' \<rparr> \<and>
     snd result =
       (case found of
          Inl err \<Rightarrow> t0 @ [search, LogError (''Failed to move PR to merged: '' @ err)]
        | Inr [] \<Rightarrow>
            t0 @ [search, LogError ''Failed to move PR to merged: PR issue not found'']
        | Inr (i # rest) \<Rightarrow>
            (case moveToStatus e (issue_key i) ''Merged_PR'' (t0 @ [search]) of
               (Some err, t4) \<Rightarrow> t4 @ [LogError (''Failed to move PR to merged: '' @ err)]
             | (None, t4) \<Rightarrow>
                 t4 @ [LogInfo (''Moved PR #'' @ itoa (go_int q) @
                                '' to Merged_PR status successfully'')])) @
       logDetailedPR e ''closed'' d \<and>
     ((\<forall>i rest. found \<noteq> Inr (i # rest)) \<longrightarrow>
        tracker_calls (snd result) = tracker_calls t @ [search] \<and>
        (\<exists>m. error_logs (snd result) = error_logs t @ [LogError m]))"
proof -
  have handled: "handlePullRequestEventDetailed h e payload t =
      (Returned (),
       handlePRMerged e ((payload_prInfo payload (go_int q) (Files d))\<lparr>Action := ''merged''\<rparr>) t2 @
       logDetailedPR e ''closed'' d)"
    using jira closed merged by (simp add: handler_enriched [OF number enriched])
  have response: "fst result =
      Returned \<lparr> resp_status = 200, resp_body = ''Repository webhook processed successfully'' \<rparr>"
    and trace: "snd result =
      handlePRMerged e ((payload_prInfo payload (go_int q) (Files d))\<lparr>Action := ''merged''\<rparr>) t2 @
      logDetailedPR e ''closed'' d"
    by (simp_all add: result_def HandleRepoWebhook_pull_request [OF body event parsed] handled)
  have merged_trace:
    "handlePRMerged e ((payload_prInfo payload (go_int q) (Files d))\<lparr>Action := ''merged''\<rparr>) t2 =
       (case found of
          Inl err \<Rightarrow> t0 @ [search, LogError (''Failed to move PR to merged: '' @ err)]
        | Inr [] \<Rightarrow>
            t0 @ [search, LogError ''Failed to move PR to merged: PR issue not found'']
        | Inr (i # rest) \<Rightarrow>
            (case moveToStatus e (issue_key i) ''Merged_PR'' (t0 @ [search]) of
               (Some err, t4) \<Rightarrow> t4 @ [LogError (''Failed to move PR to merged: '' @ err)]
             | (None, t4) \<Rightarrow>
                 t4 @ [LogInfo (''Moved PR #'' @ itoa (go_int q) @
                                '' to Merged_PR status successfully'')]))"
    unfolding found_def t0_def search_def
    by (simp add: handlePRMerged_trace payload_prInfo_def Let_def
        split: sum.splits list.splits prod.splits option.splits)
  have t2_tracker: "filter is_tracker_call t2 = filter is_tracker_call t"
    and t2_errors: "filter is_error_log t2 = filter is_error_log t"
    using GetPullRequestDetails_trace
      [of e "githubClient_org h" "payload_repoName payload" "go_int q"
        "t @ [detailed_pr_banner (payload_action payload) (payload_repoName payload) (go_int q)
               (payload_userName payload)]"]
      enriched
    by (auto simp: enrich_def)
  have not_found: "tracker_calls (snd result) = tracker_calls t @ [search] \<and>
        (\<exists>m. error_logs (snd result) = error_logs t @ [LogError m])"
    if "\<forall>i rest. found \<noteq> Inr (i # rest)"
  proof (cases found)
    case (Inl err)
    then show ?thesis
      by (simp add: trace merged_trace t0_def search_def t2_tracker t2_errors tracker_calls_def
          error_logs_def)
  next
    case (Inr issues)
    with that have "issues = []" by (cases issues) simp_all
    with Inr show ?thesis
      by (simp add: trace merged_trace t0_def search_def t2_tracker t2_errors tracker_calls_def
          error_logs_def)
  qed
  have jql: "pr_jql (go_int q) =
       ''project = '' @ dquote @ ''REP'' @ dquote @ '' AND labels = '' @ dquote @
       ''pr-'' @ itoa (go_int q) @ dquote"
    by (simp add: pr_jql_def pr_label_def)
  show ?thesis
    using jql response not_found by (simp add: trace merged_trace)
qed

text \<open>The search finds nothing: one search, one error line, no transition, response 200.\<close>

theorem C2_merged_witness:
  "req_body (req ''pull_request'' (body_pr ''closed'' ''true'')) =
     Inr (body_pr ''closed'' ''true'') \<and>
   req_event (req ''pull_request'' (body_pr ''closed'' ''true'')) = ''pull_request'' \<and>
   json_Unmarshal_map env_no_match (body_pr ''closed'' ''true'') =
     Inr (as_map (payload_pr ''closed'' True)) \<and>
   jiraClient_set h_acme \<and>
   payload_action (as_map (payload_pr ''closed'' True)) = ''closed'' \<and>
   as_bool (index (payload_prData (as_map (payload_pr ''closed'' True))) ''merged'') \<and>
   index (payload_prData (as_map (payload_pr ''closed'' True))) ''number'' = JNum 7 \<and>
   enrich h_acme env_no_match (as_map (payload_pr ''closed'' True)) 7 [] =
     (Inr \<lparr> PullRequest = pr_seven, Files = [file_parser], Reviews = [] \<rparr>,
      [detailed_pr_banner ''closed'' ''widgets'' 7 [],
       GhPullRequestsGet ''acme'' ''widgets'' 7, GhPullRequestsListFiles ''acme'' ''widgets'' 7,
       GhPullRequestsListReviews ''acme'' ''widgets'' 7]) \<and>
   fst (HandleRepoWebhook h_acme env_no_match (req ''pull_request'' (body_pr ''closed'' ''true'')) []) =
     Returned \<lparr> resp_status = 200, resp_body = ''Repository webhook processed successfully'' \<rparr> \<and>
   tracker_calls (snd (HandleRepoWebhook h_acme env_no_match
                         (req ''pull_request'' (body_pr ''closed'' ''true'')) [])) =
     [JiraIssueSearch (''project = '' @ dquote @ ''REP'' @ dquote @ '' AND labels = '' @ dquote @
                       ''pr-7'' @ dquote) 1] \<and>
   error_logs (snd (HandleRepoWebhook h_acme env_no_match
                      (req ''pull_request'' (body_pr ''closed'' ''true'')) [])) =
     [LogError ''Failed to move PR to merged: PR issue not found'']"
proof -
  have body: "req_body (req ''pull_request'' (body_pr ''closed'' ''true'')) =
      Inr (body_pr ''closed'' ''true'')"
    and event: "req_event (req ''pull_request'' (body_pr ''closed'' ''true'')) = ''pull_request''"
    by (simp_all add: req_def)
  have parsed: "json_Unmarshal_map env_no_match (body_pr ''closed'' ''true'') =
      Inr (as_map (payload_pr ''closed'' True))"
    by (simp add: fixture_defs go_defs json_Unmarshal_map_def)
  have jira: "jiraClient_set h_acme"
    by (simp add: h_acme_def)
  have closed: "payload_action (as_map (payload_pr ''closed'' True)) = ''closed''"
    and merged: "as_bool (index (payload_prData (as_map (payload_pr ''closed'' True))) ''merged'')"
    and number: "index (payload_prData (as_map (payload_pr ''closed'' True))) ''number'' = JNum 7"
    by (simp_all add: view_defs go_defs payload_pr_def)
  have enriched: "enrich h_acme env_no_match (as_map (payload_pr ''closed'' True)) 7 [] =
     (Inr \<lparr> PullRequest = pr_seven, Files = [file_parser], Reviews = [] \<rparr>,
      [detailed_pr_banner ''closed'' ''widgets'' 7 [],
       GhPullRequestsGet ''acme'' ''widgets'' 7, GhPullRequestsListFiles ''acme'' ''widgets'' 7,
       GhPullRequestsListReviews ''acme'' ''widgets'' 7])"
    by (simp add: view_defs go_defs client_defs fixture_defs)
  show ?thesis
    using C2_merged_transition_only_if_found
        [OF body event parsed jira closed merged number enriched]
      body event parsed jira closed merged number enriched
    by (simp add: fixture_defs go_defs pr_jql_def pr_label_def tracker_calls_def error_logs_def
        detailed_pr_banner_def)
qed

lemma search_calls_log_changed_files [simp]:
  "filter is_search_call (log_changed_files i fs) = []"
  by (induction fs arbitrary: i) simp_all

lemma search_calls_logDetailedPR [simp]: "filter is_search_call (logDetailedPR e a d) = []"
  by (simp add: logDetailedPR_def Let_def)

lemma search_calls_GetPullRequestDetails:
  "filter is_search_call (snd (GetPullRequestDetails e org r n t)) = filter is_search_call t"
  by (simp add: GetPullRequestDetails_cases split: sum.splits)

lemma create_calls_GetPullRequestDetails_snd:
  "filter is_create_call (snd (GetPullRequestDetails e org r n t)) = filter is_create_call t"
  by (simp add: GetPullRequestDetails_cases split: sum.splits)

lemma opened_delivery:
  assumes body: "req_body r = Inr body"
    and event: "req_event r = ''pull_request''"
    and parsed: "json_Unmarshal_map e body = Inr payload"
    and jira: "jiraClient_set h"
    and opened: "payload_action payload = ''opened''"
    and number: "index (payload_prData payload) ''number'' = JNum q"
    and enriched: "enrich h e payload q t = (Inr d, t2)"
  shows "\<exists>now. filter is_create_call (snd (HandleRepoWebhook h e r t)) =
           filter is_create_call t @
           [JiraIssueCreate (issue_data (payload_prInfo payload (go_int q) (Files d)) now)] \<and>
         filter is_search_call (snd (HandleRepoWebhook h e r t)) = filter is_search_call t"
proof -
  have t2_creates: "filter is_create_call t2 = filter is_create_call t"
    and t2_searches: "filter is_search_call t2 = filter is_search_call t"
    using enriched
      create_calls_GetPullRequestDetails_snd
        [of e "githubClient_org h" "payload_repoName payload" "go_int q"
          "t @ [detailed_pr_banner (payload_action payload) (payload_repoName payload) (go_int q)
                 (payload_userName payload)]"]
      search_calls_GetPullRequestDetails
        [of e "githubClient_org h" "payload_repoName payload" "go_int q"
          "t @ [detailed_pr_banner (payload_action payload) (payload_repoName payload) (go_int q)
                 (payload_userName payload)]"]
    by (simp_all add: enrich_def detailed_pr_banner_def)
  have trace: "snd (HandleRepoWebhook h e r t) =
      handlePROpened e (payload_prInfo payload (go_int q) (Files d)) t2 @
      logDetailedPR e ''opened'' d"
    using jira opened
    by (simp add: HandleRepoWebhook_pull_request [OF body event parsed]
        handler_enriched [OF number enriched])
  show ?thesis
    by (rule exI [where x = "time_Now_Format e
          (t2 @ [LogInfo (''Creating Jira issue for PR #'' @ itoa (go_int q) @ '' in '' @
                          payload_repoName payload)]) ''2006-01-02 15:04:05''"])
      (simp add: trace handlePROpened_trace Let_def t2_creates t2_searches moveToStatus_filters
        payload_prInfo_def split: sum.splits)
qed

text \<open>
  C9. Handling of \<open>opened\<close> events is not idempotent. When the same request is delivered twice,
  the second on the trace the first left, and the enrichment succeeds both times, the trace
  gains two create-issue calls, both labelled \<open>pr-<number>\<close>, and no search call: nothing
  looks for an existing issue of the PR before creating one.
\<close>

theorem C9_redelivery_creates_two_issues:
  assumes body: "req_body r = Inr body"
    and event: "req_event r = ''pull_request''"
    and parsed: "json_Unmarshal_map e body = Inr payload"
    and jira: "jiraClient_set h"
    and opened: "payload_action payload = ''opened''"
    and number: "index (payload_prData payload) ''number'' = JNum q"
    and first: "enrich h e payload q t = (Inr d1, u1)"
    and second: "enrich h e payload q (snd (HandleRepoWebhook h e r t)) = (Inr d2, u2)"
  shows "\<exists>f1 f2.
     filter is_create_call (snd (HandleRepoWebhook h e r (snd (HandleRepoWebhook h e r t)))) =
       filter is_create_call t @ [JiraIssueCreate f1, JiraIssueCreate f2] \<and>
     if_labels f1 = [''github-pr'', ''pr-'' @ itoa (go_int q)] \<and>
     if_labels f2 = [''github-pr'', ''pr-'' @ itoa (go_int q)] \<and>
     filter is_search_call (snd (HandleRepoWebhook h e r (snd (HandleRepoWebhook h e r t)))) =
       filter is_search_call t"
proof -
  obtain now1 where one:
    "filter is_create_call (snd (HandleRepoWebhook h e r t)) =
       filter is_create_call t @
       [JiraIssueCreate (issue_data (payload_prInfo payload (go_int q) (Files d1)) now1)]"
    "filter is_search_call (snd (HandleRepoWebhook h e r t)) = filter is_search_call t"
    using opened_delivery [OF body event parsed jira opened number first] by blast
  obtain now2 where two:
    "filter is_create_call (snd (HandleRepoWebhook h e r (snd (HandleRepoWebhook h e r t)))) =
       filter is_create_call (snd (HandleRepoWebhook h e r t)) @
       [JiraIssueCreate (issue_data (payload_prInfo payload (go_int q) (Files d2)) now2)]"
    "filter is_search_call (snd (HandleRepoWebhook h e r (snd (HandleRepoWebhook h e r t)))) =
       filter is_search_call (snd (HandleRepoWebhook h e r t))"
    using opened_delivery [OF body event parsed jira opened number second] by blast
  have labels: "if_labels (issue_data (payload_prInfo payload (go_int q) fs) now) =
      [''github-pr'', ''pr-'' @ itoa (go_int q)]" for fs now
    by (simp add: issue_data_def pr_label_def payload_prInfo_def)
  show ?thesis
    by (intro exI [where x = "issue_data (payload_prInfo payload (go_int q) (Files d1)) now1"]
        exI [where x = "issue_data (payload_prInfo payload (go_int q) (Files d2)) now2"])
      (simp add: one two labels)
qed

text \<open>Two deliveries to services that always succeed create the same issue twice.\<close>

theorem C9_redelivery_witness:
  "req_body (req ''pull_request'' (body_pr ''opened'' ''false'')) =
     Inr (body_pr ''opened'' ''false'') \<and>
   req_event (req ''pull_request'' (body_pr ''opened'' ''false'')) = ''pull_request'' \<and>
   json_Unmarshal_map env_ok (body_pr ''opened'' ''false'') =
     Inr (as_map (payload_pr ''opened'' False)) \<and>
   jiraClient_set h_acme \<and>
   payload_action (as_map (payload_pr ''opened'' False)) = ''opened'' \<and>
   index (payload_prData (as_map (payload_pr ''opened'' False))) ''number'' = JNum 7 \<and>
   fst (enrich h_acme env_ok (as_map (payload_pr ''opened'' False)) 7 []) =
     Inr \<lparr> PullRequest = pr_seven, Files = [file_parser], Reviews = [] \<rparr> \<and>
   fst (enrich h_acme env_ok (as_map (payload_pr ''opened'' False)) 7
          (snd (HandleRepoWebhook h_acme env_ok
                  (req ''pull_request'' (body_pr ''opened'' ''false'')) []))) =
     Inr \<lparr> PullRequest = pr_seven, Files = [file_parser], Reviews = [] \<rparr> \<and>
   filter is_create_call
     (snd (HandleRepoWebhook h_acme env_ok (req ''pull_request'' (body_pr ''opened'' ''false''))
        (snd (HandleRepoWebhook h_acme env_ok
                (req ''pull_request'' (body_pr ''opened'' ''false'')) [])))) =
     [JiraIssueCreate
        (issue_data (payload_prInfo (as_map (payload_pr ''opened'' False)) 7 [file_parser])
           ''2025-01-01 00:00:00''),
      JiraIssueCreate
        (issue_data (payload_prInfo (as_map (payload_pr ''opened'' False)) 7 [file_parser])
           ''2025-01-01 00:00:00'')]"
proof -
  let ?r = "req ''pull_request'' (body_pr ''opened'' ''false'')"
  let ?p = "as_map (payload_pr ''opened'' False)"
  let ?d = "\<lparr> PullRequest = pr_seven, Files = [file_parser], Reviews = [] \<rparr>"
  have body: "req_body ?r = Inr (body_pr ''opened'' ''false'')"
    and event: "req_event ?r = ''pull_request''"
    by (simp_all add: req_def)
  have parsed: "json_Unmarshal_map env_ok (body_pr ''opened'' ''false'') = Inr ?p"
    by (simp add: fixture_defs go_defs json_Unmarshal_map_def)
  have jira: "jiraClient_set h_acme"
    by (simp add: h_acme_def)
  have opened: "payload_action ?p = ''opened''"
    and number: "index (payload_prData ?p) ''number'' = JNum 7"
    by (simp_all add: view_defs go_defs payload_pr_def)
  have enriched: "fst (enrich h_acme env_ok ?p 7 u) = Inr ?d" for u
    by (simp add: view_defs go_defs client_defs fixture_defs)
  have first: "enrich h_acme env_ok ?p 7 [] = (Inr ?d, snd (enrich h_acme env_ok ?p 7 []))"
    and second: "enrich h_acme env_ok ?p 7 (snd (HandleRepoWebhook h_acme env_ok ?r [])) =
      (Inr ?d, snd (enrich h_acme env_ok ?p 7 (snd (HandleRepoWebhook h_acme env_ok ?r []))))"
    by (simp_all add: prod_eq_iff enriched)
  have once: "filter is_create_call (snd (HandleRepoWebhook h_acme env_ok ?r u)) =
      filter is_create_call u @
      [JiraIssueCreate (issue_data (payload_prInfo ?p 7 [file_parser]) ''2025-01-01 00:00:00'')]"
    for u
    by (simp add: fixture_defs go_defs client_defs handler_defs view_defs logDetailedPR_def Let_def)
  show ?thesis
    using C9_redelivery_creates_two_issues
        [OF body event parsed jira opened number first second]
      body event parsed jira opened number enriched
    by (simp add: once)
qed


section \<open>The enrichment client\<close>

lemma GetPullRequestDetails_platform_calls:
  "length (platform_calls (snd (GetPullRequestDetails e org r n t))) \<le>
     length (platform_calls t) + 3"
  by (simp add: GetPullRequestDetails_cases platform_calls_def split: sum.splits)

lemma GetPullRequestDetails_succeeds_iff:
  "(\<exists>d. fst (GetPullRequestDetails e org r n t) = Inr d) \<longleftrightarrow>
     (\<exists>pr fs rs.
        gh_PullRequests_Get e t org r n = Inr pr \<and>
        gh_PullRequests_ListFiles e (t @ [GhPullRequestsGet org r n]) org r n = Inr fs \<and>
        gh_PullRequests_ListReviews e
          (t @ [GhPullRequestsGet org r n, GhPullRequestsListFiles org r n]) org r n = Inr rs)"
  by (simp add: GetPullRequestDetails_cases split: sum.splits)

lemma handler_abandons:
  assumes number: "index (payload_prData payload) ''number'' = JNum q"
    and failed: "enrich h e payload q t = (Inl err, t2)"
  shows "handlePullRequestEventDetailed h e payload t =
          (Returned (), t2 @ [LogError (''Failed to get PR details: '' @ err)]) \<and>
        tracker_calls (t2 @ [LogError (''Failed to get PR details: '' @ err)]) = tracker_calls t \<and>
        length (platform_calls (t2 @ [LogError (''Failed to get PR details: '' @ err)])) \<le>
          length (platform_calls t) + 3"
proof -
  let ?t1 = "t @ [detailed_pr_banner (payload_action payload) (payload_repoName payload)
                    (go_int q) (payload_userName payload)]"
  have call: "GetPullRequestDetails e (githubClient_org h) (payload_repoName payload) (go_int q) ?t1 =
      (Inl err, t2)"
    using failed by (simp add: enrich_def)
  have "filter is_tracker_call t2 = filter is_tracker_call ?t1"
    by (rule tracker_calls_GetPullRequestDetails [OF call])
  then have tracker: "tracker_calls t2 = tracker_calls t"
    by (simp add: tracker_calls_def)
  have "length (platform_calls t2) \<le> length (platform_calls ?t1) + 3"
    using GetPullRequestDetails_platform_calls
      [of e "githubClient_org h" "payload_repoName payload" "go_int q" ?t1]
    by (simp add: call)
  then have platform: "length (platform_calls t2) \<le> length (platform_calls t) + 3"
    by (simp add: platform_calls_def detailed_pr_banner_def)
  show ?thesis
    using tracker platform
    by (simp add: handler_not_enriched [OF number failed] tracker_calls_def platform_calls_def)
qed

text \<open>
  C6. \<open>GetPullRequestDetails\<close> asks the platform for the PR, then its files, then its reviews,
  each on the trace the previous call left. It returns the assembled details if and only if all
  three calls succeed, after exactly these three calls. When a call fails, it returns that
  call's error under a prefix and makes no further call. When the enrichment step of
  \<open>handlePullRequestEventDetailed\<close> fails, the handler logs one error line and returns: no
  tracker call is made, and at most the three platform calls were made (none is repeated).
\<close>

theorem C6_pr_enrichment_all_or_nothing:
  fixes e :: env and org r :: string and n :: int and t :: trace
  defines "g \<equiv> GhPullRequestsGet org r n"
    and "f \<equiv> GhPullRequestsListFiles org r n"
    and "v \<equiv> GhPullRequestsListReviews org r n"
  defines "got \<equiv> gh_PullRequests_Get e t org r n"
    and "files \<equiv> gh_PullRequests_ListFiles e (t @ [g]) org r n"
    and "reviews \<equiv> gh_PullRequests_ListReviews e (t @ [g, f]) org r n"
  shows
    "((\<exists>d. fst (GetPullRequestDetails e org r n t) = Inr d) \<longleftrightarrow>
        (\<exists>pr fs rs. got = Inr pr \<and> files = Inr fs \<and> reviews = Inr rs)) \<and>
     (\<forall>pr fs rs. got = Inr pr \<and> files = Inr fs \<and> reviews = Inr rs \<longrightarrow>
        GetPullRequestDetails e org r n t =
          (Inr \<lparr> PullRequest = pr, Files = fs, Reviews = rs \<rparr>, t @ [g, f, v])) \<and>
     (\<forall>err. got = Inl err \<longrightarrow>
        GetPullRequestDetails e org r n t = (Inl (''failed to get PR details: '' @ err), t @ [g])) \<and>
     (\<forall>pr err. got = Inr pr \<and> files = Inl err \<longrightarrow>
        GetPullRequestDetails e org r n t =
          (Inl (''failed to get PR files: '' @ err), t @ [g, f])) \<and>
     (\<forall>pr fs err. got = Inr pr \<and> files = Inr fs \<and> reviews = Inl err \<longrightarrow>
        GetPullRequestDetails e org r n t =
          (Inl (''failed to get PR reviews: '' @ err), t @ [g, f, v])) \<and>
     (\<forall>h payload q err t2.
        index (payload_prData payload) ''number'' = JNum q \<and>
        enrich h e payload q t = (Inl err, t2) \<longrightarrow>
        handlePullRequestEventDetailed h e payload t =
          (Returned (), t2 @ [LogError (''Failed to get PR details: '' @ err)]) \<and>
        tracker_calls (t2 @ [LogError (''Failed to get PR details: '' @ err)]) = tracker_calls t \<and>
        length (platform_calls (t2 @ [LogError (''Failed to get PR details: '' @ err)])) \<le>
          length (platform_calls t) + 3)"
  unfolding g_def f_def v_def got_def files_def reviews_def
proof (intro conjI allI impI)
  show "(\<exists>d. fst (GetPullRequestDetails e org r n t) = Inr d) \<longleftrightarrow>
     (\<exists>pr fs rs.
        gh_PullRequests_Get e t org r n = Inr pr \<and>
        gh_PullRequests_ListFiles e (t @ [GhPullRequestsGet org r n]) org r n = Inr fs \<and>
        gh_PullRequests_ListReviews e
          (t @ [GhPullRequestsGet org r n, GhPullRequestsListFiles org r n]) org r n = Inr rs)"
    by (rule GetPullRequestDetails_succeeds_iff)
next
  fix h payload q err t2
  assume "index (payload_prData payload) ''number'' = JNum q \<and>
    enrich h e payload q t = (Inl err, t2)"
  then have number: "index (payload_prData payload) ''number'' = JNum q"
    and failed: "enrich h e payload q t = (Inl err, t2)"
    by (rule conjunct1, rule conjunct2)
  note abandoned = handler_abandons [OF number failed]
  from abandoned show "handlePullRequestEventDetailed h e payload t =
       (Returned (), t2 @ [LogError (''Failed to get PR details: '' @ err)])"
    by (rule conjunct1)
  from abandoned show
    "tracker_calls (t2 @ [LogError (''Failed to get PR details: '' @ err)]) = tracker_calls t"
    by (simp only:)
  from abandoned show
    "length (platform_calls (t2 @ [LogError (''Failed to get PR details: '' @ err)])) \<le>
       length (platform_calls t) + 3"
    by (simp only:)
qed (simp_all add: GetPullRequestDetails_cases)

text \<open>
  The file list fails after the PR was fetched: two platform calls, then the error line; with
  every call succeeding, three calls and the details.
\<close>

theorem C6_pr_enrichment_witness:
  "gh_PullRequests_Get env_no_files [] ''acme'' ''widgets'' 7 = Inr pr_seven \<and>
   gh_PullRequests_ListFiles env_no_files [GhPullRequestsGet ''acme'' ''widgets'' 7]
     ''acme'' ''widgets'' 7 = Inl ''502 Bad Gateway'' \<and>
   GetPullRequestDetails env_no_files ''acme'' ''widgets'' 7 [] =
     (Inl ''failed to get PR files: 502 Bad Gateway'',
      [GhPullRequestsGet ''acme'' ''widgets'' 7, GhPullRequestsListFiles ''acme'' ''widgets'' 7]) \<and>
   index (payload_prData (as_map (payload_pr ''opened'' False))) ''number'' = JNum 7 \<and>
   handlePullRequestEventDetailed h_acme env_no_files (as_map (payload_pr ''opened'' False)) [] =
     (Returned (),
      [detailed_pr_banner ''opened'' ''widgets'' 7 [],
       GhPullRequestsGet ''acme'' ''widgets'' 7, GhPullRequestsListFiles ''acme'' ''widgets'' 7,
       LogError ''Failed to get PR details: failed to get PR files: 502 Bad Gateway'']) \<and>
   GetPullRequestDetails env_ok ''acme'' ''widgets'' 7 [] =
     (Inr \<lparr> PullRequest = pr_seven, Files = [file_parser], Reviews = [] \<rparr>,
      [GhPullRequestsGet ''acme'' ''widgets'' 7, GhPullRequestsListFiles ''acme'' ''widgets'' 7,
       GhPullRequestsListReviews ''acme'' ''widgets'' 7])"
proof -
  have number: "index (payload_prData (as_map (payload_pr ''opened'' False))) ''number'' = JNum 7"
    by (simp add: view_defs go_defs payload_pr_def)
  have failed: "enrich h_acme env_no_files (as_map (payload_pr ''opened'' False)) 7 [] =
     (Inl ''failed to get PR files: 502 Bad Gateway'',
      [detailed_pr_banner ''opened'' ''widgets'' 7 [],
       GhPullRequestsGet ''acme'' ''widgets'' 7, GhPullRequestsListFiles ''acme'' ''widgets'' 7])"
    by (simp add: view_defs go_defs client_defs fixture_defs)
  show ?thesis
    using C6_pr_enrichment_all_or_nothing
        [where e = env_no_files and org = "''acme''" and r = "''widgets''" and n = 7 and t = "[]"]
      C6_pr_enrichment_all_or_nothing
        [where e = env_ok and org = "''acme''" and r = "''widgets''" and n = 7 and t = "[]"]
      number failed
    by (simp add: fixture_defs)
qed

section \<open>The push handler\<close>

text \<open>
  C7. In \<open>handlePushEventDetailed\<close>, for a commit of the payload that is an object: when the
  commit-detail call fails, one error line is logged, nothing else is done for that commit and
  the loop goes on with the next commit, at the next index. When the commit-detail call succeeds
  and the diff call fails, the failure is logged and the commit's record is still logged: its
  diff is the literal \<open>Diff unavailable\<close>, its files-changed, additions and deletions are those
  of the commit-detail call, and the loop goes on with the next commit.
\<close>

theorem C7_diff_failure_placeholder_detail_failure_skips:
  fixes h :: WebhookHandler and e :: env and c :: json and t :: trace
    and repoName branch :: string and i :: nat and cs :: "json list"
  assumes object: "is_map c"
  defines "sha \<equiv> as_string (index (as_map c) ''id'')"
  defines "g \<equiv> GhRepositoriesGetCommit (githubClient_org h) repoName sha"
  defines "detail \<equiv> gh_Repositories_GetCommit e t (githubClient_org h) repoName sha"
    and "diff \<equiv> gh_Repositories_GetCommit e (t @ [g]) (githubClient_org h) repoName sha"
  shows
    "(\<forall>err. detail = Inl err \<longrightarrow>
        handle_commit h e repoName branch i c t =
          (Returned (),
           t @ [g, LogError (''Failed to get commit details: failed to get commit details: '' @
                             err)]) \<and>
        handle_commits h e repoName branch i (c # cs) t =
          handle_commits h e repoName branch (i + 1) cs
            (t @ [g, LogError (''Failed to get commit details: failed to get commit details: '' @
                               err)])) \<and>
     (\<forall>commit err. detail = Inr commit \<and> diff = Inl err \<longrightarrow>
        (let t3 = t @ [g, g, LogError (''Failed to get file diff: failed to get commit diff: '' @
                                       err)];
             record =
               logDetailedCommit (int i + 1)
                 \<lparr> ci_SHA = sha,
                   ci_Message = as_string (index (as_map c) ''message''),
                   ci_Author = as_string (index (as_map (index (as_map c) ''author'')) ''name''),
                   ci_AuthorEmail =
                     as_string (index (as_map (index (as_map c) ''author'')) ''email''),
                   ci_Date = time_Now_Format e t3 ''2006-01-02T15:04:05Z07:00'',
                   ci_FilesChanged = int (length (rc_files commit)),
                   ci_Additions = rc_stats_additions commit,
                   ci_Deletions = rc_stats_deletions commit,
                   ci_Repository = repoName,
                   ci_Branch = branch,
                   ci_DiffContent = ''Diff unavailable'' \<rparr>
         in handle_commit h e repoName branch i c t = (Returned (), t3 @ record) \<and>
            LogInfo ''Diff unavailable'' \<in> set record \<and>
            LogInfo (''  Files Changed: '' @ itoa (int (length (rc_files commit)))) \<in> set record \<and>
            LogInfo (''  Lines: +'' @ itoa (rc_stats_additions commit) @ ''/-'' @
                     itoa (rc_stats_deletions commit)) \<in> set record \<and>
            handle_commits h e repoName branch i (c # cs) t =
              handle_commits h e repoName branch (i + 1) cs (t3 @ record)))"
proof (intro conjI allI impI)
  fix err
  assume failed: "detail = Inl err"
  then show skip: "handle_commit h e repoName branch i c t =
      (Returned (),
       t @ [g, LogError (''Failed to get commit details: failed to get commit details: '' @ err)])"
    using object unfolding detail_def g_def sha_def
    by (simp add: handle_commit_def GetCommitDetails_def Repositories_GetCommit_def Let_def)
  show "handle_commits h e repoName branch i (c # cs) t =
      handle_commits h e repoName branch (i + 1) cs
        (t @ [g, LogError (''Failed to get commit details: failed to get commit details: '' @
                           err)])"
    by (simp add: skip)
next
  fix commit err
  assume "detail = Inr commit \<and> diff = Inl err"
  then have step: "handle_commit h e repoName branch i c t =
      (Returned (),
       (t @ [g, g, LogError (''Failed to get file diff: failed to get commit diff: '' @ err)]) @
       logDetailedCommit (int i + 1)
         \<lparr> ci_SHA = sha,
           ci_Message = as_string (index (as_map c) ''message''),
           ci_Author = as_string (index (as_map (index (as_map c) ''author'')) ''name''),
           ci_AuthorEmail = as_string (index (as_map (index (as_map c) ''author'')) ''email''),
           ci_Date = time_Now_Format e
             (t @ [g, g, LogError (''Failed to get file diff: failed to get commit diff: '' @ err)])
             ''2006-01-02T15:04:05Z07:00'',
           ci_FilesChanged = int (length (rc_files commit)),
           ci_Additions = rc_stats_additions commit,
           ci_Deletions = rc_stats_deletions commit,
           ci_Repository = repoName,
           ci_Branch = branch,
           ci_DiffContent = ''Diff unavailable'' \<rparr>)"
    using object unfolding detail_def diff_def g_def sha_def
    by (simp add: handle_commit_def GetCommitDetails_def GetFileDiff_def
        Repositories_GetCommit_def Let_def)
  show "let t3 = t @ [g, g, LogError (''Failed to get file diff: failed to get commit diff: '' @
                                       err)];
             record =
               logDetailedCommit (int i + 1)
                 \<lparr> ci_SHA = sha,
                   ci_Message = as_string (index (as_map c) ''message''),
                   ci_Author = as_string (index (as_map (index (as_map c) ''author'')) ''name''),
                   ci_AuthorEmail =
                     as_string (index (as_map (index (as_map c) ''author'')) ''email''),
                   ci_Date = time_Now_Format e t3 ''2006-01-02T15:04:05Z07:00'',
                   ci_FilesChanged = int (length (rc_files commit)),
                   ci_Additions = rc_stats_additions commit,
                   ci_Deletions = rc_stats_deletions commit,
                   ci_Repository = repoName,
                   ci_Branch = branch,
                   ci_DiffContent = ''Diff unavailable'' \<rparr>
         in handle_commit h e repoName branch i c t = (Returned (), t3 @ record) \<and>
            LogInfo ''Diff unavailable'' \<in> set record \<and>
            LogInfo (''  Files Changed: '' @ itoa (int (length (rc_files commit)))) \<in> set record \<and>
            LogInfo (''  Lines: +'' @ itoa (rc_stats_additions commit) @ ''/-'' @
                     itoa (rc_stats_deletions commit)) \<in> set record \<and>
            handle_commits h e repoName branch i (c # cs) t =
              handle_commits h e repoName branch (i + 1) cs (t3 @ record)"
    unfolding Let_def
    by (intro conjI) (simp_all add: step, simp_all add: logDetailedCommit_def)
qed

text \<open>
  Two commits against a platform without the commit: both are skipped, in order. One commit
  against a platform that answers once: the record carries the placeholder and the statistics
  of the one answer.
\<close>

theorem C7_partial_failure_witness:
  "is_map commit_fix \<and>
   gh_Repositories_GetCommit env_no_commit [] ''acme'' ''widgets'' ''0123456789abcdef'' =
     Inl ''404 Not Found'' \<and>
   handle_commits h_acme env_no_commit ''widgets'' ''main'' 0 [commit_fix, commit_fix] [] =
     (Returned (),
      [GhRepositoriesGetCommit ''acme'' ''widgets'' ''0123456789abcdef'',
       LogError ''Failed to get commit details: failed to get commit details: 404 Not Found'',
       GhRepositoriesGetCommit ''acme'' ''widgets'' ''0123456789abcdef'',
       LogError ''Failed to get commit details: failed to get commit details: 404 Not Found'']) \<and>
   gh_Repositories_GetCommit env_commit_once [] ''acme'' ''widgets'' ''0123456789abcdef'' =
     Inr commit_stats \<and>
   gh_Repositories_GetCommit env_commit_once
     [GhRepositoriesGetCommit ''acme'' ''widgets'' ''0123456789abcdef'']
     ''acme'' ''widgets'' ''0123456789abcdef'' = Inl ''502 Bad Gateway'' \<and>
   handle_commit h_acme env_commit_once ''widgets'' ''main'' 0 commit_fix [] =
     (Returned (),
      [GhRepositoriesGetCommit ''acme'' ''widgets'' ''0123456789abcdef'',
       GhRepositoriesGetCommit ''acme'' ''widgets'' ''0123456789abcdef'',
       LogError ''Failed to get file diff: failed to get commit diff: 502 Bad Gateway''] @
      logDetailedCommit 1
        \<lparr> ci_SHA = ''0123456789abcdef'', ci_Message = ''fix'', ci_Author = [],
          ci_AuthorEmail = [], ci_Date = ''2025-01-01 00:00:00'', ci_FilesChanged = 1,
          ci_Additions = 12, ci_Deletions = 3, ci_Repository = ''widgets'', ci_Branch = ''main'',
          ci_DiffContent = ''Diff unavailable'' \<rparr>)"
proof -
  have object: "is_map commit_fix"
    by (simp add: commit_fix_def is_map_def)
  show ?thesis
    using C7_diff_failure_placeholder_detail_failure_skips
        [OF object, where h = h_acme and e = env_no_commit and repoName = "''widgets''"
          and branch = "''main''" and i = 0 and cs = "[commit_fix]" and t = "[]"]
      C7_diff_failure_placeholder_detail_failure_skips
        [OF object, where h = h_acme and e = env_commit_once and repoName = "''widgets''"
          and branch = "''main''" and i = 0 and cs = "[]" and t = "[]"]
      object
    by (simp add: fixture_defs go_defs client_defs handle_commit_def Let_def)
qed


section \<open>The event classifier\<close>

text \<open>
  C3. The claim fails on the code by a slip. The body \<open>{}\<close> is a successfully parsed payload
  without \<open>pull_request.number\<close>. On the repository-scope entry
  \<open>handlePullRequestEventDetailed\<close> reads that field with the single-value assertion
  \<open>.(float64)\<close> and panics before it logs or calls anything, so no response is written; on
  the organization-scope entry \<open>handlePullRequestEvent\<close> reads the same field with the comma-ok
  form and completes with the zero value.
\<close>

theorem C3_missing_number_panics:
  "json_Unmarshal_map env_ok ''{}'' = Inr (Some []) \<and>
   HandleRepoWebhook h_acme env_ok (req ''pull_request'' ''{}'') [] =
     (Panicked ''interface conversion: interface {} is not float64'', []) \<and>
   HandleOrgWebhook h_acme env_ok (req ''pull_request'' ''{}'') [] =
     (Returned \<lparr> resp_status = 200,
                 resp_body = ''Organization webhook processed successfully'' \<rparr>,
      [LogInfo ''PR event:  - #0: ''])"
  by (simp add: fixture_defs go_defs handler_defs Let_def)

lemma json_Unmarshal_map_fails_iff:
  "(\<exists>err. json_Unmarshal_map e b = Inl err) \<longleftrightarrow>
     (\<exists>err. json_parse e b = Inl err) \<or>
     (\<exists>v. json_parse e b = Inr v \<and> v \<noteq> JNull \<and> \<not> is_map v)"
  by (simp add: json_Unmarshal_map_def is_map_def split: sum.splits json.splits)

lemma HandleOrgWebhook_cases:
  "HandleOrgWebhook h e r t =
     (case req_body r of
        Inl err \<Rightarrow>
          (Returned \<lparr> resp_status = 400, resp_body = ''Invalid request body'' @ nl \<rparr>,
           t @ [LogError (''Failed to read request body: '' @ err)])
      | Inr body \<Rightarrow>
          if req_event r = [] then
            (Returned \<lparr> resp_status = 400, resp_body = ''Missing event type'' @ nl \<rparr>,
             t @ [LogError ''Missing X-GitHub-Event header''])
          else
            (case json_Unmarshal_map e body of
               Inl err \<Rightarrow>
                 (Returned \<lparr> resp_status = 400, resp_body = ''Invalid JSON payload'' @ nl \<rparr>,
                  t @ [LogError (''Failed to parse JSON payload: '' @ err)])
             | Inr payload \<Rightarrow>
                 (Returned \<lparr> resp_status = 200,
                             resp_body = ''Organization webhook processed successfully'' \<rparr>,
                  snd (HandleOrgWebhook h e r t))))"
  by (simp add: HandleOrgWebhook_def Let_def split: sum.splits)

lemma HandleRepoWebhook_cases:
  "fst (HandleRepoWebhook h e r t) =
     (case req_body r of
        Inl err \<Rightarrow> Returned \<lparr> resp_status = 400, resp_body = ''Invalid request body'' @ nl \<rparr>
      | Inr body \<Rightarrow>
          if req_event r = [] then
            Returned \<lparr> resp_status = 400, resp_body = ''Missing event type'' @ nl \<rparr>
          else
            (case json_Unmarshal_map e body of
               Inl err \<Rightarrow>
                 Returned \<lparr> resp_status = 400, resp_body = ''Invalid JSON payload'' @ nl \<rparr>
             | Inr payload \<Rightarrow>
                 (case fst (HandleRepoWebhook h e r t) of
                    Panicked p \<Rightarrow> Panicked p
                  | Returned resp \<Rightarrow>
                      Returned \<lparr> resp_status = 200,
                                 resp_body = ''Repository webhook processed successfully'' \<rparr>)))"
  by (simp add: HandleRepoWebhook_def Let_def split: sum.splits prod.splits outcome.splits)

lemma rejected_traces:
  "req_body r = Inl err \<Longrightarrow>
     snd (HandleOrgWebhook h e r t) = t @ [LogError (''Failed to read request body: '' @ err)] \<and>
     snd (HandleRepoWebhook h e r t) = t @ [LogError (''Failed to read request body: '' @ err)]"
  "req_body r = Inr b \<Longrightarrow> req_event r = [] \<Longrightarrow>
     snd (HandleOrgWebhook h e r t) = t @ [LogError ''Missing X-GitHub-Event header''] \<and>
     snd (HandleRepoWebhook h e r t) = t @ [LogError ''Missing X-GitHub-Event header'']"
  "req_body r = Inr b \<Longrightarrow> req_event r \<noteq> [] \<Longrightarrow> json_Unmarshal_map e b = Inl err \<Longrightarrow>
     snd (HandleOrgWebhook h e r t) = t @ [LogError (''Failed to parse JSON payload: '' @ err)] \<and>
     snd (HandleRepoWebhook h e r t) = t @ [LogError (''Failed to parse JSON payload: '' @ err)]"
  by (simp_all add: HandleOrgWebhook_def HandleRepoWebhook_def Let_def)

text \<open>
  C4, as amended. For every request to either endpoint, the response is 400 if and only if the
  body is unreadable, the event-type header is absent or empty, or the body does not decode into
  a \<open>map[string]interface{}\<close>: it is not valid JSON, or it is a JSON value other than an object
  or \<open>null\<close>. In that case one error line is logged, nothing is dispatched and no upstream
  call is made. Otherwise the organization-scope entry responds 200 with its confirmation body,
  and the repository-scope entry responds 200 with its confirmation body whenever its handler
  returns, whatever the enrichment and tracker calls answered.
\<close>

theorem C4_status_400_iff_rejected_else_200:
  fixes h :: WebhookHandler and e :: env and r :: request and t :: trace
  defines "unreadable \<equiv> (\<exists>err. req_body r = Inl err)"
    and "no_event \<equiv> req_event r = []"
    and "undecodable \<equiv> (\<exists>b err. req_body r = Inr b \<and> json_Unmarshal_map e b = Inl err)"
  defines "rejected \<equiv> unreadable \<or> no_event \<or> undecodable"
  shows
    "(\<forall>b. (\<exists>err. json_Unmarshal_map e b = Inl err) \<longleftrightarrow>
        (\<exists>err. json_parse e b = Inl err) \<or>
        (\<exists>v. json_parse e b = Inr v \<and> v \<noteq> JNull \<and> \<not> is_map v)) \<and>
     ((\<exists>m. fst (HandleOrgWebhook h e r t) = Returned \<lparr> resp_status = 400, resp_body = m \<rparr>) \<longleftrightarrow>
        rejected) \<and>
     ((\<exists>m. fst (HandleRepoWebhook h e r t) = Returned \<lparr> resp_status = 400, resp_body = m \<rparr>) \<longleftrightarrow>
        rejected) \<and>
     (rejected \<longrightarrow>
        (\<exists>m. snd (HandleOrgWebhook h e r t) = t @ [LogError m] \<and>
             snd (HandleRepoWebhook h e r t) = t @ [LogError m]) \<and>
        platform_calls (snd (HandleOrgWebhook h e r t)) = platform_calls t \<and>
        tracker_calls (snd (HandleOrgWebhook h e r t)) = tracker_calls t \<and>
        platform_calls (snd (HandleRepoWebhook h e r t)) = platform_calls t \<and>
        tracker_calls (snd (HandleRepoWebhook h e r t)) = tracker_calls t) \<and>
     (\<not> rejected \<longrightarrow>
        fst (HandleOrgWebhook h e r t) =
          Returned \<lparr> resp_status = 200,
                      resp_body = ''Organization webhook processed successfully'' \<rparr> \<and>
        (\<forall>resp. fst (HandleRepoWebhook h e r t) = Returned resp \<longrightarrow>
           resp = \<lparr> resp_status = 200,
                    resp_body = ''Repository webhook processed successfully'' \<rparr>))"
proof -
  have org_iff:
    "(\<exists>m. fst (HandleOrgWebhook h e r t) = Returned \<lparr> resp_status = 400, resp_body = m \<rparr>) \<longleftrightarrow>
       rejected"
    unfolding rejected_def unreadable_def no_event_def undecodable_def
    by (subst HandleOrgWebhook_cases) (auto split: sum.splits)
  have repo_iff:
    "(\<exists>m. fst (HandleRepoWebhook h e r t) = Returned \<lparr> resp_status = 400, resp_body = m \<rparr>) \<longleftrightarrow>
       rejected"
    unfolding rejected_def unreadable_def no_event_def undecodable_def
    by (subst HandleRepoWebhook_cases) (auto split: sum.splits outcome.splits)
  have logged: "\<exists>m. snd (HandleOrgWebhook h e r t) = t @ [LogError m] \<and>
      snd (HandleRepoWebhook h e r t) = t @ [LogError m]" if rejected
  proof (cases "req_body r")
    case (Inl err)
    then show ?thesis using rejected_traces(1) by blast
  next
    case (Inr b)
    show ?thesis
    proof (cases "req_event r = []")
      case True
      with Inr show ?thesis using rejected_traces(2) by blast
    next
      case False
      with Inr that obtain err where "json_Unmarshal_map e b = Inl err"
        unfolding rejected_def unreadable_def no_event_def undecodable_def by auto
      with Inr False show ?thesis using rejected_traces(3) by blast
    qed
  qed
  have no_calls:
    "platform_calls (snd (HandleOrgWebhook h e r t)) = platform_calls t \<and>
     tracker_calls (snd (HandleOrgWebhook h e r t)) = tracker_calls t \<and>
     platform_calls (snd (HandleRepoWebhook h e r t)) = platform_calls t \<and>
     tracker_calls (snd (HandleRepoWebhook h e r t)) = tracker_calls t" if rejected
    using logged [OF that] by (auto simp: platform_calls_def tracker_calls_def)
  have org_ok: "fst (HandleOrgWebhook h e r t) =
      Returned \<lparr> resp_status = 200,
                  resp_body = ''Organization webhook processed successfully'' \<rparr>"
    if "\<not> rejected"
    using that unfolding rejected_def unreadable_def no_event_def undecodable_def
    by (subst HandleOrgWebhook_cases) (auto split: sum.splits)
  have repo_ok: "resp = \<lparr> resp_status = 200,
                    resp_body = ''Repository webhook processed successfully'' \<rparr>"
    if accepted: "\<not> rejected" and returned: "fst (HandleRepoWebhook h e r t) = Returned resp"
    for resp
  proof -
    have "fst (HandleRepoWebhook h e r t) =
        (case fst (HandleRepoWebhook h e r t) of
           Panicked p \<Rightarrow> Panicked p
         | Returned resp \<Rightarrow>
             Returned \<lparr> resp_status = 200,
                        resp_body = ''Repository webhook processed successfully'' \<rparr>)"
      using accepted unfolding rejected_def unreadable_def no_event_def undecodable_def
      by (subst HandleRepoWebhook_cases) (auto split: sum.splits)
    with returned show ?thesis by simp
  qed
  show ?thesis
    using json_Unmarshal_map_fails_iff org_iff repo_iff logged no_calls org_ok repo_ok
    by (intro conjI allI impI) (assumption | simp)+
qed

text \<open>
  The claim as written fails twice on the repository-scope entry: the body \<open>[]\<close> is valid
  JSON, has its header, and is answered 400; and a \<open>pull_request\<close> event with the body \<open>{}\<close>
  meets none of the three conditions and gets no 200, since the handler panics.
\<close>

theorem C4_counterexample:
  "req_body (req ''push'' ''[]'') = Inr ''[]'' \<and>
   req_event (req ''push'' ''[]'') = ''push'' \<and>
   json_parse env_ok ''[]'' = Inr (JArr []) \<and>
   HandleRepoWebhook h_acme env_ok (req ''push'' ''[]'') [] =
     (Returned \<lparr> resp_status = 400, resp_body = ''Invalid JSON payload'' @ nl \<rparr>,
      [LogError (''Failed to parse JSON payload: '' @
         ''json: cannot unmarshal array into Go value of type map[string]interface {}'')]) \<and>
   req_body (req ''pull_request'' ''{}'') = Inr ''{}'' \<and>
   req_event (req ''pull_request'' ''{}'') = ''pull_request'' \<and>
   json_parse env_ok ''{}'' = Inr (JObj []) \<and>
   HandleRepoWebhook h_acme env_ok (req ''pull_request'' ''{}'') [] =
     (Panicked ''interface conversion: interface {} is not float64'', [])"
  by (simp add: fixture_defs go_defs handler_defs Let_def)

text \<open>
  An array body is rejected on both entries without an upstream call; an opened PR whose
  enrichment fails is still answered 200 on both.
\<close>

theorem C4_status_witness:
  "json_Unmarshal_map env_ok ''[]'' =
     Inl ''json: cannot unmarshal array into Go value of type map[string]interface {}'' \<and>
   json_Unmarshal_map env_no_files (body_pr ''opened'' ''false'') =
     Inr (as_map (payload_pr ''opened'' False)) \<and>
   fst (HandleOrgWebhook h_acme env_ok (req ''push'' ''[]'') []) =
     Returned \<lparr> resp_status = 400, resp_body = ''Invalid JSON payload'' @ nl \<rparr> \<and>
   fst (HandleRepoWebhook h_acme env_ok (req ''push'' ''[]'') []) =
     Returned \<lparr> resp_status = 400, resp_body = ''Invalid JSON payload'' @ nl \<rparr> \<and>
   platform_calls (snd (HandleRepoWebhook h_acme env_ok (req ''push'' ''[]'') [])) = [] \<and>
   fst (HandleOrgWebhook h_acme env_no_files
          (req ''pull_request'' (body_pr ''opened'' ''false'')) []) =
     Returned \<lparr> resp_status = 200,
                 resp_body = ''Organization webhook processed successfully'' \<rparr> \<and>
   fst (HandleRepoWebhook h_acme env_no_files
          (req ''pull_request'' (body_pr ''opened'' ''false'')) []) =
     Returned \<lparr> resp_status = 200, resp_body = ''Repository webhook processed successfully'' \<rparr> \<and>
   error_logs (snd (HandleRepoWebhook h_acme env_no_files
                      (req ''pull_request'' (body_pr ''opened'' ''false'')) [])) =
     [LogError ''Failed to get PR details: failed to get PR files: 502 Bad Gateway'']"
proof -
  have rejected: "\<exists>b err. req_body (req ''push'' ''[]'') = Inr b \<and>
      json_Unmarshal_map env_ok b = Inl err"
    by (simp add: fixture_defs json_Unmarshal_map_def)
  have accepted: "\<not> ((\<exists>err. req_body (req ''pull_request'' (body_pr ''opened'' ''false'')) = Inl err) \<or>
      req_event (req ''pull_request'' (body_pr ''opened'' ''false'')) = [] \<or>
      (\<exists>b err. req_body (req ''pull_request'' (body_pr ''opened'' ''false'')) = Inr b \<and>
         json_Unmarshal_map env_no_files b = Inl err))"
    by (simp add: fixture_defs go_defs json_Unmarshal_map_def)
  have returned: "fst (HandleRepoWebhook h_acme env_no_files
          (req ''pull_request'' (body_pr ''opened'' ''false'')) []) =
      Returned \<lparr> resp_status = 200, resp_body = ''Repository webhook processed successfully'' \<rparr>"
    and logged: "error_logs (snd (HandleRepoWebhook h_acme env_no_files
                      (req ''pull_request'' (body_pr ''opened'' ''false'')) [])) =
      [LogError ''Failed to get PR details: failed to get PR files: 502 Bad Gateway'']"
    and bodies: "fst (HandleOrgWebhook h_acme env_ok (req ''push'' ''[]'') []) =
        Returned \<lparr> resp_status = 400, resp_body = ''Invalid JSON payload'' @ nl \<rparr>"
      "fst (HandleRepoWebhook h_acme env_ok (req ''push'' ''[]'') []) =
        Returned \<lparr> resp_status = 400, resp_body = ''Invalid JSON payload'' @ nl \<rparr>"
    by (simp_all add: fixture_defs go_defs client_defs handler_defs view_defs Let_def)
  note bad =
    C4_status_400_iff_rejected_else_200
      [where h = h_acme and e = env_ok and r = "req ''push'' ''[]''" and t = "[]",
        THEN conjunct2, THEN conjunct2, THEN conjunct2, THEN conjunct1]
  note good =
    C4_status_400_iff_rejected_else_200
      [where h = h_acme and e = env_no_files
        and r = "req ''pull_request'' (body_pr ''opened'' ''false'')" and t = "[]",
        THEN conjunct2, THEN conjunct2, THEN conjunct2, THEN conjunct2]
  from bad rejected
  have "platform_calls (snd (HandleRepoWebhook h_acme env_ok (req ''push'' ''[]'') [])) =
      platform_calls []"
    by blast
  moreover from good accepted
  have "fst (HandleOrgWebhook h_acme env_no_files
          (req ''pull_request'' (body_pr ''opened'' ''false'')) []) =
      Returned \<lparr> resp_status = 200,
                  resp_body = ''Organization webhook processed successfully'' \<rparr>"
    by blast
  moreover have "json_Unmarshal_map env_ok ''[]'' =
      Inl ''json: cannot unmarshal array into Go value of type map[string]interface {}''"
    and "json_Unmarshal_map env_no_files (body_pr ''opened'' ''false'') =
      Inr (as_map (payload_pr ''opened'' False))"
    by (simp_all add: fixture_defs go_defs json_Unmarshal_map_def)
  ultimately show ?thesis
    using returned logged bodies by (simp add: platform_calls_def)
qed

end
